theory Spec2Isabelle
  imports Main "HOL-Library.Word"
begin

unbundle bit_operations_syntax

section \<open>elf.py: the control class\<close>

subsection \<open>Bit masks of the control port\<close>

text \<open>Python integers are unbounded, so the masks and every value computed from them
  are \<open>int\<close>; \<open>1 << k\<close> is \<open>push_bit k 1\<close> and \<open>~m\<close> is \<open>NOT m\<close>.\<close>

definition OUTPUT :: int where
  "OUTPUT = 0"

definition WAIT_N :: int where
  "WAIT_N = push_bit 4 1"

definition CLEAR_N :: int where
  "CLEAR_N = push_bit 3 1"

definition MEM_PROTECT :: int where
  "MEM_PROTECT = push_bit 0 1"

definition EF4_N :: int where
  "EF4_N = push_bit 2 1"

definition STB_N :: int where
  "STB_N = push_bit 1 1"

definition MODE :: int where
  "MODE = CLEAR_N OR WAIT_N"

subsection \<open>The machine mode enumeration\<close>

datatype Mode = LOAD | RESET | PAUSE | RUN

fun Mode_value :: "Mode \<Rightarrow> int" where
  "Mode_value LOAD = 0x0"
| "Mode_value RESET = 0x10"
| "Mode_value PAUSE = 0x08"
| "Mode_value RUN = 0x18"

text \<open>\<open>Elf.Mode(v)\<close>, the lookup of a member by value; Python raises ValueError
  where this returns \<open>None\<close>.\<close>

definition Mode_of_value :: "int \<Rightarrow> Mode option" where
  "Mode_of_value v =
     (if v = 0x0 then Some LOAD
      else if v = 0x10 then Some RESET
      else if v = 0x08 then Some PAUSE
      else if v = 0x18 then Some RUN
      else None)"

subsection \<open>The port expander and the calls made to the collaborators\<close>

type_synonym byte = "8 word"

datatype port = PortA | PortB

text \<open>Every register access the program makes through its device handle is recorded, in
  order, with the argument exactly as the program passes it: reads and writes of the
  direction registers (\<open>iodira\<close>, \<open>iodirb\<close>), reads and writes of the ports (\<open>gpioa\<close>,
  \<open>gpiob\<close>); and so is every \<open>time.sleep\<close>, with its duration in milliseconds.\<close>

datatype event =
    ReadDir port
  | WriteDir port int
  | ReadPort port
  | WritePort port int
  | Sleep_ms nat

text \<open>The four registers of the expander that the program uses. Each is eight bits wide:
  a read yields a value in 0..255 and a write keeps the low eight bits of what is passed.\<close>

record mcp23017 =
  iodira :: byte
  iodirb :: byte
  gpioa :: byte
  gpiob :: byte

text \<open>The \<open>Elf\<close> object: its five private attributes and its device handle, together with
  the record of collaborator calls made so far.\<close>

record elf =
  self_data :: int
  self_mode :: Mode
  self_mem_protect :: bool
  self_ef4_n :: bool
  self_stb_n :: bool
  self_mcp :: mcp23017
  trace :: "event list"

subsection \<open>Procedures that may raise\<close>

datatype error = ValueError | FileNotFoundError | TypeError

text \<open>A procedure either returns or raises; in both cases the object keeps what was done
  to it up to that point.\<close>

datatype outcome = Returned elf | Raised error elf

fun state_of :: "outcome \<Rightarrow> elf" where
  "state_of (Returned s) = s"
| "state_of (Raised e s) = s"

fun returned :: "outcome \<Rightarrow> bool" where
  "returned (Returned s) = True"
| "returned (Raised e s) = False"

text \<open>A sequence of statements: each runs on the state its predecessor left, and the
  first one that raises ends the sequence.\<close>

fun block :: "(elf \<Rightarrow> outcome) list \<Rightarrow> elf \<Rightarrow> outcome" where
  "block [] s = Returned s"
| "block (stmt # rest) s =
     (case stmt s of
        Returned s' \<Rightarrow> block rest s'
      | Raised e s' \<Rightarrow> Raised e s')"

subsection \<open>Register access through the device handle\<close>

definition read_iodira :: "elf \<Rightarrow> int \<times> elf" where
  "read_iodira s = (uint (iodira (self_mcp s)), s\<lparr>trace := trace s @ [ReadDir PortA]\<rparr>)"

definition read_iodirb :: "elf \<Rightarrow> int \<times> elf" where
  "read_iodirb s = (uint (iodirb (self_mcp s)), s\<lparr>trace := trace s @ [ReadDir PortB]\<rparr>)"

definition read_gpioa :: "elf \<Rightarrow> int \<times> elf" where
  "read_gpioa s = (uint (gpioa (self_mcp s)), s\<lparr>trace := trace s @ [ReadPort PortA]\<rparr>)"

definition read_gpiob :: "elf \<Rightarrow> int \<times> elf" where
  "read_gpiob s = (uint (gpiob (self_mcp s)), s\<lparr>trace := trace s @ [ReadPort PortB]\<rparr>)"

definition write_iodira :: "int \<Rightarrow> elf \<Rightarrow> elf" where
  "write_iodira v s =
     s\<lparr>self_mcp := (self_mcp s)\<lparr>iodira := word_of_int v\<rparr>,
       trace := trace s @ [WriteDir PortA v]\<rparr>"

definition write_iodirb :: "int \<Rightarrow> elf \<Rightarrow> elf" where
  "write_iodirb v s =
     s\<lparr>self_mcp := (self_mcp s)\<lparr>iodirb := word_of_int v\<rparr>,
       trace := trace s @ [WriteDir PortB v]\<rparr>"

definition write_gpioa :: "int \<Rightarrow> elf \<Rightarrow> elf" where
  "write_gpioa v s =
     s\<lparr>self_mcp := (self_mcp s)\<lparr>gpioa := word_of_int v\<rparr>,
       trace := trace s @ [WritePort PortA v]\<rparr>"

definition write_gpiob :: "int \<Rightarrow> elf \<Rightarrow> elf" where
  "write_gpiob v s =
     s\<lparr>self_mcp := (self_mcp s)\<lparr>gpiob := word_of_int v\<rparr>,
       trace := trace s @ [WritePort PortB v]\<rparr>"

subsection \<open>Properties of the object\<close>

text \<open>The getters return the private attributes.\<close>

definition data_get :: "elf \<Rightarrow> int" where
  "data_get s = self_data s"

definition mode_get :: "elf \<Rightarrow> Mode" where
  "mode_get s = self_mode s"

definition mem_protect_get :: "elf \<Rightarrow> bool" where
  "mem_protect_get s = self_mem_protect s"

definition ef4_n_get :: "elf \<Rightarrow> bool" where
  "ef4_n_get s = self_ef4_n s"

definition stb_n_get :: "elf \<Rightarrow> bool" where
  "stb_n_get s = self_stb_n s"

text \<open>The values a caller can hand to the \<open>mode\<close> setter; only \<open>PyMode\<close> is an instance
  of \<open>Elf.Mode\<close>.\<close>

datatype Control_Mode = CONTROL | KEYBOARD

datatype py_value =
    PyMode Mode
  | PyInt int
  | PyBool bool
  | PyStr string
  | PyControl Control_Mode
  | PyNone

definition data_set :: "int \<Rightarrow> elf \<Rightarrow> outcome" where
  "data_set v s =
     (let s1 = s\<lparr>self_data := v\<rparr>
      in Returned (write_gpioa (self_data s1) s1))"

definition mode_set :: "py_value \<Rightarrow> elf \<Rightarrow> outcome" where
  "mode_set v s =
     (case v of
        PyMode m \<Rightarrow>
          (let s1 = s\<lparr>self_mode := m\<rparr>;
               (g, s2) = read_gpiob s1
           in Returned (write_gpiob ((g AND NOT MODE) OR Mode_value m) s2))
      | _ \<Rightarrow> Returned s)"

definition mem_protect_set :: "bool \<Rightarrow> elf \<Rightarrow> outcome" where
  "mem_protect_set v s =
     (if v then
        (let s1 = s\<lparr>self_mem_protect := True\<rparr>;
             (g, s2) = read_gpiob s1
         in Returned (write_gpiob (g OR MEM_PROTECT) s2))
      else
        (let s1 = s\<lparr>self_mem_protect := False\<rparr>;
             (g, s2) = read_gpiob s1
         in Returned (write_gpiob (g AND NOT MEM_PROTECT) s2)))"

definition ef4_n_set :: "bool \<Rightarrow> elf \<Rightarrow> outcome" where
  "ef4_n_set v s =
     (if v then
        (let s1 = s\<lparr>self_ef4_n := True\<rparr>;
             (g, s2) = read_gpiob s1
         in Returned (write_gpiob (g AND NOT EF4_N) s2))
      else
        (let s1 = s\<lparr>self_ef4_n := False\<rparr>;
             (g, s2) = read_gpiob s1
         in Returned (write_gpiob (g OR EF4_N) s2)))"

definition stb_n_set :: "bool \<Rightarrow> elf \<Rightarrow> outcome" where
  "stb_n_set v s =
     (if v then
        (let s1 = s\<lparr>self_stb_n := True\<rparr>;
             (g, s2) = read_gpiob s1
         in Returned (write_gpiob (g AND NOT STB_N) s2))
      else
        (let s1 = s\<lparr>self_stb_n := False\<rparr>;
             (g, s2) = read_gpiob s1
         in Returned (write_gpiob (g OR STB_N) s2)))"

subsection \<open>Construction\<close>

text \<open>The first statement of \<open>Elf.__init__\<close> builds the handle:
  \<open>MCP23017(busio.I2C(board.SCL, board.SDA))\<close>. The driver's constructor is called with
  its default \<open>reset\<close>, which makes every pin of both ports an input, that is, writes
  0xFF to both direction registers; it leaves the two port registers alone. (It also
  clears the pull-up and polarity registers and sets IOCON, none of which the program
  reads or writes.)\<close>

definition MCP23017 :: "mcp23017 \<Rightarrow> mcp23017" where
  "MCP23017 chip = chip\<lparr>iodira := 0xFF, iodirb := 0xFF\<rparr>"

text \<open>The rest of \<open>Elf.__init__\<close> handles each port on its own: a direction register
  that does not read \<open>OUTPUT\<close> is set to it and the defaults are assigned through the
  setters; otherwise the attributes are decoded from the byte read from the port.\<close>

definition init_port_a :: "elf \<Rightarrow> outcome" where
  "init_port_a s =
     (let (d, s1) = read_iodira s
      in if d \<noteq> OUTPUT then
           block [\<lambda>t. Returned (write_iodira OUTPUT t), data_set 0x00] s1
         else
           (let (g, s2) = read_gpioa s1
            in Returned (s2\<lparr>self_data := g\<rparr>)))"

definition init_port_b :: "elf \<Rightarrow> outcome" where
  "init_port_b s =
     (let (d, s1) = read_iodirb s
      in if d \<noteq> OUTPUT then
           block [\<lambda>t. Returned (write_iodirb OUTPUT t),
                  mode_set (PyMode RESET),
                  ef4_n_set False,
                  stb_n_set False,
                  mem_protect_set False] s1
         else
           (let (state, s2) = read_gpiob s1
            in case Mode_of_value (state AND MODE) of
                 None \<Rightarrow> Raised ValueError s2
               | Some m \<Rightarrow>
                   Returned (s2\<lparr>self_mode := m,
                                self_ef4_n := (state AND EF4_N = 0),
                                self_stb_n := (state AND STB_N = 0),
                                self_mem_protect := (state AND MEM_PROTECT \<noteq> 0)\<rparr>)))"

text \<open>\<open>Elf.__init__\<close> as a whole. \<open>self\<close> is the object before any attribute is assigned
  (what its attributes hold is arbitrary) and \<open>chip\<close> the expander as the program finds
  it when it starts.\<close>

definition Elf_init :: "elf \<Rightarrow> mcp23017 \<Rightarrow> outcome" where
  "Elf_init self chip =
     block [init_port_a, init_port_b] (self\<lparr>self_mcp := MCP23017 chip, trace := []\<rparr>)"

section \<open>elf_fp.py: the front panel program\<close>

text \<open>The binary images the program opens, by file name; \<open>None\<close> where \<open>open\<close> fails.\<close>

type_synonym files = "string \<Rightarrow> byte list option"

definition sleep :: "nat \<Rightarrow> elf \<Rightarrow> outcome" where
  "sleep ms s = Returned (s\<lparr>trace := trace s @ [Sleep_ms ms]\<rparr>)"

definition press_input :: "elf \<Rightarrow> outcome" where
  "press_input = block [ef4_n_set True, sleep 5, ef4_n_set False]"

text \<open>The loop of \<open>load_program\<close> over the bytes the file yields one at a time.\<close>

fun load_bytes :: "byte list \<Rightarrow> elf \<Rightarrow> outcome" where
  "load_bytes [] s = Returned s"
| "load_bytes (b # bs) s =
     (case block [data_set (uint b), press_input] s of
        Returned s' \<Rightarrow> load_bytes bs s'
      | Raised e s' \<Rightarrow> Raised e s')"

definition load_program :: "files \<Rightarrow> string \<Rightarrow> elf \<Rightarrow> outcome" where
  "load_program fs bin_file s =
     (case fs bin_file of
        None \<Rightarrow> Raised FileNotFoundError s
      | Some bytes \<Rightarrow> load_bytes bytes s)"

definition load_monitor :: "files \<Rightarrow> elf \<Rightarrow> outcome" where
  "load_monitor fs =
     block [mode_set (PyMode RESET),
            mode_set (PyMode LOAD),
            mem_protect_set False,
            load_program fs ''bootstrap.bin'',
            mode_set (PyMode RESET),
            mode_set (PyMode RUN),
            data_set 0x80,
            press_input,
            data_set 0x00,
            press_input,
            load_program fs ''max_mon.bin'',
            mode_set (PyMode RESET),
            mode_set (PyMode RUN),
            data_set 0x84,
            press_input,
            data_set 0x00,
            press_input,
            load_program fs ''max_bios.bin'',
            mode_set (PyMode RESET)]"

definition run_monitor :: "elf \<Rightarrow> outcome" where
  "run_monitor =
     block [mode_set (PyMode RESET),
            mode_set (PyMode LOAD),
            data_set 0xC0,
            press_input,
            data_set 0x80,
            press_input,
            data_set 0x00,
            press_input,
            mode_set (PyMode RESET),
            mode_set (PyMode RUN)]"

definition on_key :: "files \<Rightarrow> char \<Rightarrow> elf \<Rightarrow> outcome" where
  "on_key fs key s =
     (if key \<in> set [CHR ''i'', CHR 0x0A, CHR '' ''] then ef4_n_set True s
      else if key = CHR ''0'' then data_set ((push_bit 4 (data_get s) OR 0x0) AND 0xff) s
      else if key = CHR ''1'' then data_set ((push_bit 4 (data_get s) OR 0x1) AND 0xff) s
      else if key = CHR ''2'' then data_set ((push_bit 4 (data_get s) OR 0x2) AND 0xff) s
      else if key = CHR ''3'' then data_set ((push_bit 4 (data_get s) OR 0x3) AND 0xff) s
      else if key = CHR ''4'' then data_set ((push_bit 4 (data_get s) OR 0x4) AND 0xff) s
      else if key = CHR ''5'' then data_set ((push_bit 4 (data_get s) OR 0x5) AND 0xff) s
      else if key = CHR ''6'' then data_set ((push_bit 4 (data_get s) OR 0x6) AND 0xff) s
      else if key = CHR ''7'' then data_set ((push_bit 4 (data_get s) OR 0x7) AND 0xff) s
      else if key = CHR ''8'' then data_set ((push_bit 4 (data_get s) OR 0x8) AND 0xff) s
      else if key = CHR ''9'' then data_set ((push_bit 4 (data_get s) OR 0x9) AND 0xff) s
      else if key = CHR ''a'' then data_set ((push_bit 4 (data_get s) OR 0xA) AND 0xff) s
      else if key = CHR ''b'' then data_set ((push_bit 4 (data_get s) OR 0xB) AND 0xff) s
      else if key = CHR ''c'' then data_set ((push_bit 4 (data_get s) OR 0xC) AND 0xff) s
      else if key = CHR ''d'' then data_set ((push_bit 4 (data_get s) OR 0xD) AND 0xff) s
      else if key = CHR ''e'' then data_set ((push_bit 4 (data_get s) OR 0xE) AND 0xff) s
      else if key = CHR ''f'' then data_set ((push_bit 4 (data_get s) OR 0xF) AND 0xff) s
      else if key = CHR ''l'' then mode_set (PyMode LOAD) s
      else if key = CHR ''r'' then mode_set (PyMode RESET) s
      else if key = CHR ''g'' then mode_set (PyMode RUN) s
      else if key = CHR ''w'' then mode_set (PyMode PAUSE) s
      else if key = CHR ''p'' then mem_protect_set (\<not> mem_protect_get s) s
      else if key = CHR ''z'' then load_monitor fs s
      else if key = CHR ''m'' then run_monitor s
      else Returned s)"

definition on_release :: "char \<Rightarrow> elf \<Rightarrow> outcome" where
  "on_release key = block [ef4_n_set False, stb_n_set False]"

subsection \<open>The control loop\<close>

text \<open>The keys for which \<open>run_card\<close> registers \<open>on_release\<close> with the keyboard hook, in
  the order of the three \<open>keyboard.on_release_key\<close> calls.\<close>

definition release_keys :: "char list" where
  "release_keys = [CHR ''i'', CHR 0x0A, CHR '' '']"

text \<open>\<open>getch\<close> (the \<open>termios\<close> variant) returns what \<open>sys.stdin.read(1)\<close> returns: a
  string of one character, of any code point, or the empty string at the end of the
  input. A character is its code point; what \<open>getch\<close> returns is \<open>Some\<close> of it, or \<open>None\<close>
  for the empty string.

  \<open>getch().lower()\<close>: the empty string stays empty; an ASCII capital moves up by 32 and
  every other ASCII character is its own lower case; for a character beyond ASCII the
  result is what the Unicode tables of the interpreter give, a string that need not have
  length one. Those tables are the parameter \<open>tab\<close>.\<close>

definition lower_of :: "(nat \<Rightarrow> nat list) \<Rightarrow> nat option \<Rightarrow> nat list" where
  "lower_of tab got =
     (case got of
        None \<Rightarrow> []
      | Some cp \<Rightarrow>
          if cp < 128 then (if 65 \<le> cp \<and> cp \<le> 90 then [cp + 32] else [cp])
          else tab cp)"

text \<open>One pass through the body of the \<open>while\<close> loop, for what \<open>getch\<close> returns: the new
  \<open>done\<close> flag, the new \<open>mode\<close> and what happened to the card. \<open>ord(char)\<close> raises
  TypeError unless \<open>char\<close> is exactly one character. \<open>on_key\<close> compares its key with
  one-character ASCII literals only, so a character above 0xFF matches none of them and
  \<open>on_key\<close> does nothing. The status line that \<open>update_status\<close> prints is not part of
  the model.\<close>

definition while_body ::
  "(nat \<Rightarrow> nat list) \<Rightarrow> files \<Rightarrow> nat option \<Rightarrow> Control_Mode \<Rightarrow> elf
     \<Rightarrow> bool \<times> Control_Mode \<times> outcome" where
  "while_body tab fs got mode s =
     (let char = lower_of tab got
      in if char = [of_char (CHR ''q'')] then (True, mode, Returned s)
         else
           (case char of
              [n] \<Rightarrow>
                if n = 0 then
                  (if mode = CONTROL then (False, KEYBOARD, Returned s)
                   else (False, CONTROL, Returned s))
                else if mode = KEYBOARD then
                  (False, mode, block [data_set (int n), stb_n_set True] s)
                else
                  (False, mode, if n < 256 then on_key fs (char_of n) s else Returned s)
            | _ \<Rightarrow> (False, mode, Raised TypeError s)))"

text \<open>The loop itself, over what \<open>getch\<close> returns call after call: it ends when \<open>done\<close>
  is set, when the body raises, or (in this model) when the list is used up.\<close>

fun while_loop ::
  "(nat \<Rightarrow> nat list) \<Rightarrow> files \<Rightarrow> nat option list \<Rightarrow> Control_Mode \<Rightarrow> elf
     \<Rightarrow> bool \<times> Control_Mode \<times> outcome" where
  "while_loop tab fs [] mode s = (False, mode, Returned s)"
| "while_loop tab fs (got # rest) mode s =
     (case while_body tab fs got mode s of
        (True, mode', r) \<Rightarrow> (True, mode', r)
      | (False, mode', Returned s') \<Rightarrow> while_loop tab fs rest mode' s'
      | (False, mode', Raised e s') \<Rightarrow> (False, mode', Raised e s'))"

text \<open>\<open>run_card\<close>: the keys registered for release, and the loop started in CONTROL mode.\<close>

definition run_card ::
  "(nat \<Rightarrow> nat list) \<Rightarrow> files \<Rightarrow> nat option list \<Rightarrow> elf
     \<Rightarrow> char list \<times> bool \<times> Control_Mode \<times> outcome" where
  "run_card tab fs input s = (release_keys, while_loop tab fs input CONTROL s)"

subsection \<open>The control loop on characters below 256\<close>

text \<open>Where \<open>getch\<close> delivers a character whose code is below 256, \<open>lower\<close> yields one
  character again, which \<open>ord\<close> accepts, and the pass through the loop body reads as
  follows on the eight-bit characters. \<open>str.lower\<close> on such a character: the ASCII
  capitals and the Latin-1 capitals (all of 0xC0..0xDE but the multiplication sign 0xD7)
  move up by 32; every other such character is its own lower case.\<close>

definition lower :: "char \<Rightarrow> char" where
  "lower c =
     (let n = (of_char c :: nat)
      in if (65 \<le> n \<and> n \<le> 90) \<or> (192 \<le> n \<and> n \<le> 222 \<and> n \<noteq> 215)
         then char_of (n + 32) else c)"

definition loop_body :: "files \<Rightarrow> char \<Rightarrow> Control_Mode \<Rightarrow> elf \<Rightarrow> bool \<times> Control_Mode \<times> outcome" where
  "loop_body fs c mode s =
     (let char = lower c
      in if char = CHR ''q'' then (True, mode, Returned s)
         else if (of_char char :: nat) = 0 then
           (if mode = CONTROL then (False, KEYBOARD, Returned s)
            else (False, CONTROL, Returned s))
         else if mode = KEYBOARD then
           (False, mode, block [data_set (of_char char), stb_n_set True] s)
         else (False, mode, on_key fs char s))"

fun card_loop :: "files \<Rightarrow> char list \<Rightarrow> Control_Mode \<Rightarrow> elf \<Rightarrow> bool \<times> Control_Mode \<times> outcome" where
  "card_loop fs [] mode s = (False, mode, Returned s)"
| "card_loop fs (c # cs) mode s =
     (case loop_body fs c mode s of
        (True, mode', r) \<Rightarrow> (True, mode', r)
      | (False, mode', Returned s') \<Rightarrow> card_loop fs cs mode' s'
      | (False, mode', Raised e s') \<Rightarrow> (False, mode', Raised e s'))"

text \<open>The Latin-1 part of the interpreter's lower-casing tables, which is what \<open>lower\<close>
  above follows.\<close>

definition latin1_lower :: "(nat \<Rightarrow> nat list) \<Rightarrow> bool" where
  "latin1_lower tab \<longleftrightarrow>
     (\<forall>cp. 128 \<le> cp \<and> cp < 256 \<longrightarrow> tab cp = [of_char (lower (char_of cp))])"

section \<open>Observations and examples\<close>

text \<open>The byte on the control port, as a read returns it.\<close>

abbreviation portb :: "elf \<Rightarrow> int" where
  "portb s \<equiv> uint (gpiob (self_mcp s))"

text \<open>What an eight-bit port holds after the integer \<open>k\<close> has been written to it.\<close>

definition low8 :: "int \<Rightarrow> int" where
  "low8 k = uint (word_of_int k :: byte)"

text \<open>\<open>isinstance(value, self.Mode)\<close>.\<close>

fun isinstance_Mode :: "py_value \<Rightarrow> bool" where
  "isinstance_Mode (PyMode m) = True"
| "isinstance_Mode v = False"

text \<open>A card that is attached and idle: both ports are outputs, the machine is in RESET,
  the data port shows 0x05 and neither line is asserted.\<close>

definition card0 :: elf where
  "card0 = \<lparr>self_data = 0x05, self_mode = RESET, self_mem_protect = False,
            self_ef4_n = False, self_stb_n = False,
            self_mcp = \<lparr>iodira = 0, iodirb = 0, gpioa = 0x05, gpiob = 0x16\<rparr>,
            trace = []\<rparr>"

text \<open>What the record of collaborator calls shows: how many times the program slept and
  the values it wrote to the data port.\<close>

fun is_sleep :: "event \<Rightarrow> bool" where
  "is_sleep (Sleep_ms n) = True"
| "is_sleep e = False"

definition sleeps :: "event list \<Rightarrow> nat" where
  "sleeps t = length (filter is_sleep t)"

fun porta_value :: "event \<Rightarrow> int list" where
  "porta_value (WritePort PortA v) = [v]"
| "porta_value e = []"

definition porta_writes :: "event list \<Rightarrow> int list" where
  "porta_writes t = concat (map porta_value t)"

text \<open>The mirror agrees with the control port: the two mode bits hold the value of the
  stored mode, the stored \<open>ef4_n\<close> and \<open>stb_n\<close> are true exactly when their wire bits
  are 0, and the stored \<open>mem_protect\<close> is true exactly when its bit is 1.\<close>

definition encoding_ok :: "elf \<Rightarrow> bool" where
  "encoding_ok s \<longleftrightarrow>
     portb s AND MODE = Mode_value (self_mode s)
     \<and> self_ef4_n s = (portb s AND EF4_N = 0)
     \<and> self_stb_n s = (portb s AND STB_N = 0)
     \<and> self_mem_protect s = (portb s AND MEM_PROTECT \<noteq> 0)"

subsection \<open>The operation sequences, in the words of the specification\<close>

text \<open>A register operation of the specification: an assignment to one logical field, or
  holding for a number of milliseconds. Each is carried out by the setter of the program
  (or by its sleep).\<close>

datatype operation =
    Set_mode Mode
  | Set_data int
  | Set_mem_protect bool
  | Set_ef4_n bool
  | Set_stb_n bool
  | Hold_ms nat

fun perform :: "operation \<Rightarrow> elf \<Rightarrow> outcome" where
  "perform (Set_mode m) = mode_set (PyMode m)"
| "perform (Set_data v) = data_set v"
| "perform (Set_mem_protect b) = mem_protect_set b"
| "perform (Set_ef4_n b) = ef4_n_set b"
| "perform (Set_stb_n b) = stb_n_set b"
| "perform (Hold_ms n) = sleep n"

definition perform_all :: "operation list \<Rightarrow> elf \<Rightarrow> outcome" where
  "perform_all ops = block (map perform ops)"

text \<open>pulse: assert the interrupt line, hold 5 milliseconds, deassert it.\<close>

definition pulse :: "operation list" where
  "pulse = [Set_ef4_n True, Hold_ms 5, Set_ef4_n False]"

text \<open>load_program on a byte sequence: for every byte, in order, write it to data and
  pulse.\<close>

definition load_ops :: "byte list \<Rightarrow> operation list" where
  "load_ops bs = concat (map (\<lambda>b. Set_data (uint b) # pulse) bs)"

fun op_sleeps :: "operation \<Rightarrow> nat" where
  "op_sleeps (Hold_ms n) = 1"
| "op_sleeps x = 0"

fun op_data :: "operation \<Rightarrow> int list" where
  "op_data (Set_data v) = [v]"
| "op_data x = []"

text \<open>The hexadecimal digits of the dispatch table and the value of each: its position
  in the row \<open>0\<close> to \<open>f\<close>.\<close>

definition hex_digits :: "char list" where
  "hex_digits = ''0123456789abcdef''"

definition nibble_value :: "char \<Rightarrow> int" where
  "nibble_value c = int (length (takeWhile (\<lambda>d. d \<noteq> c) hex_digits))"

text \<open>The hex row of the dispatch table: shift the data byte left by four bits, put the
  value of the digit in the low four, keep the low eight bits.\<close>

definition shift_in :: "int \<Rightarrow> char \<Rightarrow> int" where
  "shift_in d c = (push_bit 4 d OR nibble_value c) AND 0xFF"

text \<open>Three images of three, two and one bytes.\<close>

definition images0 :: files where
  "images0 name =
     (if name = ''bootstrap.bin'' then Some [0x71, 0x00, 0xF8]
      else if name = ''max_mon.bin'' then Some [0xC0, 0x80]
      else if name = ''max_bios.bin'' then Some [0x30]
      else None)"

text \<open>An expander as an earlier session of the program leaves it: both ports are
  outputs, the data port shows 0xA5, and the control port 0x1D: mode RUN, the interrupt
  line deasserted (wire bit 2 set), the strobe asserted (wire bit 1 clear) and memory
  protection on.\<close>

definition dev_warm :: mcp23017 where
  "dev_warm = \<lparr>iodira = 0, iodirb = 0, gpioa = 0xA5, gpiob = 0x1D\<rparr>"

text \<open>Lower-casing tables that leave every character beyond ASCII as it is; the euro sign
  U+20AC, used below, has no other lower case.\<close>

definition no_case :: "nat \<Rightarrow> nat list" where
  "no_case cp = [cp]"

section \<open>Bits of the masks\<close>

lemma bit_shl1: "bit (push_bit k (1::int)) n \<longleftrightarrow> n = k"
  by (auto simp: bit_simps)

lemma bit_MODE: "bit MODE n \<longleftrightarrow> n = 3 \<or> n = 4"
  unfolding MODE_def CLEAR_N_def WAIT_N_def by (simp only: bit_or_iff bit_shl1)

lemma bit_MEM_PROTECT: "bit MEM_PROTECT n \<longleftrightarrow> n = 0"
  unfolding MEM_PROTECT_def by (simp only: bit_shl1)

lemma bit_EF4_N: "bit EF4_N n \<longleftrightarrow> n = 2"
  unfolding EF4_N_def by (simp only: bit_shl1)

lemma bit_STB_N: "bit STB_N n \<longleftrightarrow> n = 1"
  unfolding STB_N_def by (simp only: bit_shl1)

lemma Mode_value_masks:
  "Mode_value m = (case m of LOAD \<Rightarrow> 0 | RESET \<Rightarrow> WAIT_N | PAUSE \<Rightarrow> CLEAR_N | RUN \<Rightarrow> MODE)"
  by (cases m) (simp_all add: MODE_def CLEAR_N_def WAIT_N_def)

lemma bit_Mode_value:
  "bit (Mode_value m) n \<longleftrightarrow>
     (n = 3 \<and> (m = PAUSE \<or> m = RUN)) \<or> (n = 4 \<and> (m = RESET \<or> m = RUN))"
proof (cases m)
  case LOAD
  then show ?thesis by simp
next
  case RESET
  then have "Mode_value m = push_bit 4 1" by simp
  then show ?thesis using RESET by (simp only: bit_shl1) simp
next
  case PAUSE
  then have "Mode_value m = push_bit 3 1" by simp
  then show ?thesis using PAUSE by (simp only: bit_shl1) simp
next
  case RUN
  then have "Mode_value m = MODE" by (simp add: Mode_value_masks)
  then show ?thesis using RUN by (simp only: bit_MODE) simp
qed

lemma bit_low8: "bit (low8 k) n \<longleftrightarrow> n < 8 \<and> bit k n"
  by (auto simp: low8_def bit_simps)

lemma bit_portb: "bit (portb s) n \<Longrightarrow> n < 8"
  by (auto simp: bit_simps dest: bit_imp_le_length)

lemmas byte_bits =
  bit_and_iff bit_or_iff bit_not_iff bit_low8
  bit_MODE bit_MEM_PROTECT bit_EF4_N bit_STB_N bit_Mode_value

lemma portb_written [simp]: "uint (word_of_int k :: byte) = low8 k"
  by (simp add: low8_def)

section \<open>What each setter does\<close>

lemma data_set_eq:
  "data_set v s =
     Returned (s\<lparr>self_data := v,
       self_mcp := (self_mcp s)\<lparr>gpioa := word_of_int v\<rparr>,
       trace := trace s @ [WritePort PortA v]\<rparr>)"
  by (simp add: data_set_def write_gpioa_def)

lemma mode_set_Mode:
  "mode_set (PyMode m) s =
     Returned (s\<lparr>self_mode := m,
       self_mcp := (self_mcp s)\<lparr>gpiob := word_of_int ((portb s AND NOT MODE) OR Mode_value m)\<rparr>,
       trace := trace s @
         [ReadPort PortB, WritePort PortB ((portb s AND NOT MODE) OR Mode_value m)]\<rparr>)"
  by (simp add: mode_set_def read_gpiob_def write_gpiob_def)

lemma mode_set_other: "\<not> isinstance_Mode v \<Longrightarrow> mode_set v s = Returned s"
  by (cases v) (simp_all add: mode_set_def)

lemma mem_protect_set_eq:
  "mem_protect_set v s =
     Returned (s\<lparr>self_mem_protect := v,
       self_mcp := (self_mcp s)\<lparr>gpiob :=
         word_of_int (if v then portb s OR MEM_PROTECT else portb s AND NOT MEM_PROTECT)\<rparr>,
       trace := trace s @
         [ReadPort PortB,
          WritePort PortB (if v then portb s OR MEM_PROTECT else portb s AND NOT MEM_PROTECT)]\<rparr>)"
  by (simp add: mem_protect_set_def read_gpiob_def write_gpiob_def)

lemma ef4_n_set_eq:
  "ef4_n_set v s =
     Returned (s\<lparr>self_ef4_n := v,
       self_mcp := (self_mcp s)\<lparr>gpiob :=
         word_of_int (if v then portb s AND NOT EF4_N else portb s OR EF4_N)\<rparr>,
       trace := trace s @
         [ReadPort PortB,
          WritePort PortB (if v then portb s AND NOT EF4_N else portb s OR EF4_N)]\<rparr>)"
  by (simp add: ef4_n_set_def read_gpiob_def write_gpiob_def)

lemma stb_n_set_eq:
  "stb_n_set v s =
     Returned (s\<lparr>self_stb_n := v,
       self_mcp := (self_mcp s)\<lparr>gpiob :=
         word_of_int (if v then portb s AND NOT STB_N else portb s OR STB_N)\<rparr>,
       trace := trace s @
         [ReadPort PortB,
          WritePort PortB (if v then portb s AND NOT STB_N else portb s OR STB_N)]\<rparr>)"
  by (simp add: stb_n_set_def read_gpiob_def write_gpiob_def)

lemma frame_mode:
  "low8 ((portb s AND NOT MODE) OR Mode_value m) AND NOT MODE = portb s AND NOT MODE"
  by (rule bit_eqI) (auto simp: byte_bits dest: bit_portb)

lemma field_mode:
  "low8 ((portb s AND NOT MODE) OR Mode_value m) AND MODE = Mode_value m"
  by (rule bit_eqI) (auto simp: byte_bits dest: bit_portb)

lemma frame_mem_protect:
  "low8 (if v then portb s OR MEM_PROTECT else portb s AND NOT MEM_PROTECT) AND NOT MEM_PROTECT
     = portb s AND NOT MEM_PROTECT"
  by (rule bit_eqI) (auto simp: byte_bits dest: bit_portb)

lemma frame_ef4_n:
  "low8 (if v then portb s AND NOT EF4_N else portb s OR EF4_N) AND NOT EF4_N
     = portb s AND NOT EF4_N"
  by (rule bit_eqI) (auto simp: byte_bits dest: bit_portb)

lemma frame_stb_n:
  "low8 (if v then portb s AND NOT STB_N else portb s OR STB_N) AND NOT STB_N
     = portb s AND NOT STB_N"
  by (rule bit_eqI) (auto simp: byte_bits dest: bit_portb)

section \<open>Sequences of setter calls\<close>

lemma low8_portb [simp]: "low8 (portb s) = portb s"
  by (simp add: low8_def)

lemma low8_simps:
  "low8 (a OR b) = low8 a OR low8 b"
  "low8 (a AND NOT m) = low8 a AND NOT m"
  "low8 (low8 a) = low8 a"
  "low8 MODE = MODE"
  "low8 EF4_N = EF4_N"
  "low8 STB_N = STB_N"
  "low8 MEM_PROTECT = MEM_PROTECT"
  "low8 (Mode_value md) = Mode_value md"
  by (rule bit_eqI; auto simp: byte_bits)+

lemmas setter_eqs =
  data_set_eq mode_set_Mode mem_protect_set_eq ef4_n_set_eq stb_n_set_eq sleep_def

lemma press_input_eq:
  "press_input s = Returned (s\<lparr>self_ef4_n := False,
       self_mcp := (self_mcp s)\<lparr>gpiob := word_of_int (portb s OR EF4_N)\<rparr>,
       trace := trace s @
         [ReadPort PortB, WritePort PortB (portb s AND NOT EF4_N), Sleep_ms 5,
          ReadPort PortB, WritePort PortB (portb s OR EF4_N)]\<rparr>)"
proof -
  have w: "(portb s AND NOT EF4_N) OR EF4_N = portb s OR EF4_N"
    by (rule bit_eqI) (auto simp: byte_bits)
  show ?thesis
    by (simp add: press_input_def setter_eqs low8_simps w)
qed

lemma block_append:
  "block (xs @ ys) s =
     (case block xs s of Returned s' \<Rightarrow> block ys s' | Raised e s' \<Rightarrow> Raised e s')"
  by (induction xs arbitrary: s) (auto split: outcome.splits)

lemma perform_returns: "\<exists>s'. perform x s = Returned s'"
  by (cases x) (simp_all add: setter_eqs)

lemma perform_all_Nil [simp]: "perform_all [] s = Returned s"
  by (simp add: perform_all_def)

lemma perform_all_Cons:
  "perform_all (x # xs) s = perform_all xs (state_of (perform x s))"
  using perform_returns [of x s] by (auto simp: perform_all_def)

lemma perform_all_append:
  "perform_all (xs @ ys) s = perform_all ys (state_of (perform_all xs s))"
  by (induction xs arbitrary: s) (simp_all add: perform_all_Cons)

lemma perform_all_returned: "returned (perform_all xs s)"
  by (induction xs arbitrary: s) (simp_all add: perform_all_Cons)

lemma sleeps_append [simp]: "sleeps (t @ u) = sleeps t + sleeps u"
  by (simp add: sleeps_def)

lemma porta_writes_append [simp]: "porta_writes (t @ u) = porta_writes t @ porta_writes u"
  by (simp add: porta_writes_def)

lemma perform_sleeps:
  "sleeps (trace (state_of (perform x s))) = sleeps (trace s) + op_sleeps x"
  by (cases x) (simp_all add: setter_eqs sleeps_def)

lemma perform_porta:
  "porta_writes (trace (state_of (perform x s))) = porta_writes (trace s) @ op_data x"
  by (cases x) (simp_all add: setter_eqs porta_writes_def)

lemma perform_all_sleeps:
  "sleeps (trace (state_of (perform_all xs s))) = sleeps (trace s) + sum_list (map op_sleeps xs)"
  by (induction xs arbitrary: s) (simp_all add: perform_all_Cons perform_sleeps)

lemma perform_all_porta:
  "porta_writes (trace (state_of (perform_all xs s))) =
     porta_writes (trace s) @ concat (map op_data xs)"
  by (induction xs arbitrary: s) (simp_all add: perform_all_Cons perform_porta)

lemma press_input_pulse: "press_input s = perform_all pulse s"
  by (simp add: press_input_def perform_all_def pulse_def)

lemma load_bytes_ops: "load_bytes bs s = perform_all (load_ops bs) s"
proof (induction bs arbitrary: s)
  case Nil
  show ?case by (simp add: load_ops_def)
next
  case (Cons b bs)
  have split: "load_ops (b # bs) = (Set_data (uint b) # pulse) @ load_ops bs"
    by (simp add: load_ops_def)
  have head: "block [data_set (uint b), press_input] s = perform_all (Set_data (uint b) # pulse) s"
    by (simp add: perform_all_def pulse_def press_input_def setter_eqs)
  obtain s' where s': "perform_all (Set_data (uint b) # pulse) s = Returned s'"
    using perform_all_returned [of "Set_data (uint b) # pulse" s]
    by (cases "perform_all (Set_data (uint b) # pulse) s") simp_all
  have "load_bytes (b # bs) s = load_bytes bs s'"
    by (simp only: load_bytes.simps head s' outcome.case)
  also have "\<dots> = perform_all (load_ops bs) s'"
    by (rule Cons.IH)
  also have "\<dots> = perform_all (load_ops (b # bs)) s"
    by (simp only: split perform_all_append s' state_of.simps)
  finally show ?case .
qed

lemma load_program_ops:
  "fs name = Some bs \<Longrightarrow> load_program fs name s = perform_all (load_ops bs) s"
  by (simp add: load_program_def load_bytes_ops)

lemma block_perform_all:
  "block (perform_all xs # rest) s = block rest (state_of (perform_all xs s))"
  using perform_all_returned [of xs s] by (cases "perform_all xs s") simp_all

lemma block_perform:
  "block (perform x # rest) s = block rest (state_of (perform x s))"
  using perform_returns [of x s] by auto

lemma load_monitor_ops:
  assumes "fs ''bootstrap.bin'' = Some i1" "fs ''max_mon.bin'' = Some i2"
    "fs ''max_bios.bin'' = Some i3"
  shows "load_monitor fs s =
     perform_all ([Set_mode RESET, Set_mode LOAD, Set_mem_protect False] @ load_ops i1 @
                  [Set_mode RESET, Set_mode RUN, Set_data 0x80] @ pulse @
                  [Set_data 0x00] @ pulse @ load_ops i2 @
                  [Set_mode RESET, Set_mode RUN, Set_data 0x84] @ pulse @
                  [Set_data 0x00] @ pulse @ load_ops i3 @
                  [Set_mode RESET]) s"
proof -
  have lp: "load_program fs ''bootstrap.bin'' = perform_all (load_ops i1)"
    "load_program fs ''max_mon.bin'' = perform_all (load_ops i2)"
    "load_program fs ''max_bios.bin'' = perform_all (load_ops i3)"
    using assms by (auto simp: load_program_ops)
  have st: "mode_set (PyMode m) = perform (Set_mode m)" "data_set v = perform (Set_data v)"
    "mem_protect_set b = perform (Set_mem_protect b)" "press_input = perform_all pulse" for m v b
    by (auto simp: press_input_pulse)
  show ?thesis
    unfolding load_monitor_def lp st
    by (simp only: block_perform block_perform_all block.simps(1) perform_all_append
        perform_all_Cons perform_all_Nil append.simps state_of.simps)
qed

lemma pulse_sleeps [simp]: "sum_list (map op_sleeps pulse) = 1"
  by (simp add: pulse_def)

lemma pulse_data [simp]: "concat (map op_data pulse) = []"
  by (simp add: pulse_def)

lemma load_ops_sleeps [simp]: "sum_list (map op_sleeps (load_ops bs)) = length bs"
  by (induction bs) (simp_all add: load_ops_def)

lemma load_ops_data [simp]: "concat (map op_data (load_ops bs)) = map uint bs"
  by (induction bs) (simp_all add: load_ops_def)

lemma load_monitor_sleeps:
  assumes "fs ''bootstrap.bin'' = Some i1" "fs ''max_mon.bin'' = Some i2"
    "fs ''max_bios.bin'' = Some i3"
  shows "sleeps (trace (state_of (load_monitor fs s))) =
     sleeps (trace s) + (length i1 + length i2 + length i3 + 4)"
  by (simp add: load_monitor_ops [OF assms] perform_all_sleeps)

lemma load_monitor_porta:
  assumes "fs ''bootstrap.bin'' = Some i1" "fs ''max_mon.bin'' = Some i2"
    "fs ''max_bios.bin'' = Some i3"
  shows "porta_writes (trace (state_of (load_monitor fs s))) =
     porta_writes (trace s) @ map uint i1 @ [0x80, 0x00] @ map uint i2 @ [0x84, 0x00] @ map uint i3"
  by (simp add: load_monitor_ops [OF assms] perform_all_porta)


section \<open>The register store\<close>

text \<open>C3. Each setter of a control-port field returns normally, makes its own getter
  return the value written, leaves the getters of the three other fields and of the data
  byte as they were, and leaves every bit of the control port outside its own mask as it
  was (so the fields decoded from the port are unchanged too). For the mode this holds for
  each of LOAD, RESET, PAUSE and RUN, whose two bits then read the value of that mode; and
  whatever value the mode setter is handed, member of the enumeration or not, the other
  fields and the other bits are as before.\<close>

theorem setters_leave_other_fields:
  "(let r = mode_set (PyMode X) s; s' = state_of r
    in returned r \<and> mode_get s' = X
       \<and> mem_protect_get s' = mem_protect_get s
       \<and> ef4_n_get s' = ef4_n_get s
       \<and> stb_n_get s' = stb_n_get s
       \<and> data_get s' = data_get s
       \<and> portb s' AND NOT MODE = portb s AND NOT MODE
       \<and> portb s' AND MODE = Mode_value X)
   \<and> (let r = mem_protect_set b s; s' = state_of r
    in returned r \<and> mem_protect_get s' = b
       \<and> mode_get s' = mode_get s
       \<and> ef4_n_get s' = ef4_n_get s
       \<and> stb_n_get s' = stb_n_get s
       \<and> data_get s' = data_get s
       \<and> portb s' AND NOT MEM_PROTECT = portb s AND NOT MEM_PROTECT)
   \<and> (let r = ef4_n_set b s; s' = state_of r
    in returned r \<and> ef4_n_get s' = b
       \<and> mode_get s' = mode_get s
       \<and> mem_protect_get s' = mem_protect_get s
       \<and> stb_n_get s' = stb_n_get s
       \<and> data_get s' = data_get s
       \<and> portb s' AND NOT EF4_N = portb s AND NOT EF4_N)
   \<and> (let r = stb_n_set b s; s' = state_of r
    in returned r \<and> stb_n_get s' = b
       \<and> mode_get s' = mode_get s
       \<and> mem_protect_get s' = mem_protect_get s
       \<and> ef4_n_get s' = ef4_n_get s
       \<and> data_get s' = data_get s
       \<and> portb s' AND NOT STB_N = portb s AND NOT STB_N)
   \<and> (let r = mode_set pv s; s' = state_of r
    in returned r
       \<and> mem_protect_get s' = mem_protect_get s
       \<and> ef4_n_get s' = ef4_n_get s
       \<and> stb_n_get s' = stb_n_get s
       \<and> data_get s' = data_get s
       \<and> portb s' AND NOT MODE = portb s AND NOT MODE)"
proof -
  note getters = data_get_def mode_get_def mem_protect_get_def ef4_n_get_def stb_n_get_def
  have m: "let r = mode_set (PyMode X) s; s' = state_of r
    in returned r \<and> mode_get s' = X
       \<and> mem_protect_get s' = mem_protect_get s
       \<and> ef4_n_get s' = ef4_n_get s
       \<and> stb_n_get s' = stb_n_get s
       \<and> data_get s' = data_get s
       \<and> portb s' AND NOT MODE = portb s AND NOT MODE
       \<and> portb s' AND MODE = Mode_value X"
    by (simp add: Let_def mode_set_Mode getters frame_mode field_mode del: Mode_value.simps)
  have p: "let r = mem_protect_set b s; s' = state_of r
    in returned r \<and> mem_protect_get s' = b
       \<and> mode_get s' = mode_get s
       \<and> ef4_n_get s' = ef4_n_get s
       \<and> stb_n_get s' = stb_n_get s
       \<and> data_get s' = data_get s
       \<and> portb s' AND NOT MEM_PROTECT = portb s AND NOT MEM_PROTECT"
    using frame_mem_protect [of b s]
    by (simp add: Let_def mem_protect_set_eq getters)
  have e: "let r = ef4_n_set b s; s' = state_of r
    in returned r \<and> ef4_n_get s' = b
       \<and> mode_get s' = mode_get s
       \<and> mem_protect_get s' = mem_protect_get s
       \<and> stb_n_get s' = stb_n_get s
       \<and> data_get s' = data_get s
       \<and> portb s' AND NOT EF4_N = portb s AND NOT EF4_N"
    using frame_ef4_n [of b s]
    by (simp add: Let_def ef4_n_set_eq getters)
  have t: "let r = stb_n_set b s; s' = state_of r
    in returned r \<and> stb_n_get s' = b
       \<and> mode_get s' = mode_get s
       \<and> mem_protect_get s' = mem_protect_get s
       \<and> ef4_n_get s' = ef4_n_get s
       \<and> data_get s' = data_get s
       \<and> portb s' AND NOT STB_N = portb s AND NOT STB_N"
    using frame_stb_n [of b s]
    by (simp add: Let_def stb_n_set_eq getters)
  have a: "let r = mode_set pv s; s' = state_of r
    in returned r
       \<and> mem_protect_get s' = mem_protect_get s
       \<and> ef4_n_get s' = ef4_n_get s
       \<and> stb_n_get s' = stb_n_get s
       \<and> data_get s' = data_get s
       \<and> portb s' AND NOT MODE = portb s AND NOT MODE"
  proof (cases "isinstance_Mode pv")
    case True
    then obtain md where "pv = PyMode md"
      by (cases pv) simp_all
    then show ?thesis
      by (simp add: Let_def mode_set_Mode getters frame_mode del: Mode_value.simps)
  next
    case False
    then show ?thesis
      by (simp add: Let_def mode_set_other)
  qed
  from m p e t a show ?thesis by (simp only: simp_thms)
qed

text \<open>C5, as the code has it. A value that is not a member of \<open>Elf.Mode\<close> is ignored:
  the setter returns normally, raising nothing, and the object, the control port and the
  record of collaborator calls are exactly as before (the port is neither read nor
  written).\<close>

theorem mode_set_ignores_foreign_value:
  "\<not> isinstance_Mode v \<Longrightarrow> mode_set v s = Returned s"
  by (cases v) (simp_all add: mode_set_def)

theorem mode_set_ignores_foreign_value_witness:
  "\<not> isinstance_Mode (PyControl KEYBOARD)
   \<and> mode_set (PyControl KEYBOARD) card0 = Returned card0"
proof -
  have h: "\<not> isinstance_Mode (PyControl KEYBOARD)" by simp
  show ?thesis by (rule conjI [OF h mode_set_ignores_foreign_value [OF h]])
qed

text \<open>C5 as stated fails: handed the integer 7, which is no member of the enumeration,
  the setter does not fail; it returns.\<close>

theorem mode_set_foreign_value_does_not_fail:
  "returned (mode_set (PyInt 7) card0) \<and> mode_set (PyInt 7) card0 = Returned card0"
  by (simp add: mode_set_def)

text \<open>C10. The data setter stores the integer it is given in the attribute as it is and
  passes the same integer to the port write, whatever its size or sign: the getter then
  returns it unchanged, also for 0x1FF and for -1, which do not fit eight bits. Nothing
  else of the object changes and the write is the only collaborator call.\<close>

theorem data_set_does_not_mask:
  "data_set v s =
     Returned (s\<lparr>self_data := v,
       self_mcp := (self_mcp s)\<lparr>gpioa := word_of_int v\<rparr>,
       trace := trace s @ [WritePort PortA v]\<rparr>)
   \<and> data_get (state_of (data_set v s)) = v
   \<and> data_get (state_of (data_set 0x1FF s)) = 0x1FF
   \<and> data_get (state_of (data_set (- 1) s)) = - 1"
  by (simp add: data_set_def write_gpioa_def data_get_def)

section \<open>The bootstrap protocols\<close>

text \<open>C9. \<open>press_input\<close>, the pulse of the specification, is exactly: set \<open>ef4_n\<close> to
  true, hold 5 milliseconds, set \<open>ef4_n\<close> to false. The hold is the blocking call
  \<open>time.sleep(0.005)\<close>, made after the write that asserts the line and before the read
  and write that deassert it. The call always returns, and what it leaves is the state it
  found with \<open>ef4_n\<close> false, bit 2 of the control port set (the line deasserted) and five
  collaborator calls added; the data port, the mode, \<open>mem_protect\<close>, \<open>stb_n\<close> and every
  other bit of the control port are as before.\<close>

theorem press_input_is_pulse:
  "press_input s = perform_all [Set_ef4_n True, Hold_ms 5, Set_ef4_n False] s
   \<and> press_input s =
       Returned (s\<lparr>self_ef4_n := False,
         self_mcp := (self_mcp s)\<lparr>gpiob := word_of_int (portb s OR EF4_N)\<rparr>,
         trace := trace s @
           [ReadPort PortB, WritePort PortB (portb s AND NOT EF4_N), Sleep_ms 5,
            ReadPort PortB, WritePort PortB (portb s OR EF4_N)]\<rparr>)"
proof
  show "press_input s = perform_all [Set_ef4_n True, Hold_ms 5, Set_ef4_n False] s"
    by (simp add: press_input_def perform_all_def)
  show "press_input s =
       Returned (s\<lparr>self_ef4_n := False,
         self_mcp := (self_mcp s)\<lparr>gpiob := word_of_int (portb s OR EF4_N)\<rparr>,
         trace := trace s @
           [ReadPort PortB, WritePort PortB (portb s AND NOT EF4_N), Sleep_ms 5,
            ReadPort PortB, WritePort PortB (portb s OR EF4_N)]\<rparr>)"
    by (rule press_input_eq)
qed

text \<open>C1. From any state, \<open>run_monitor\<close> returns and performs exactly the sequence
  mode RESET, mode LOAD, data 0xC0 and pulse, data 0x80 and pulse, data 0x00 and pulse,
  mode RESET, mode RUN. The collaborator calls it makes are these and no others, in this
  order: each mode assignment and each edge of a pulse is one read and one write of the
  control port, each data assignment one write of the data port, each pulse one sleep of
  5 milliseconds. With \<open>g\<close> the byte the control port held before, the bytes written to
  it are \<open>g\<close> with the mode bits and the interrupt bit replaced as the sequence says. At
  the end the mode is RUN, the data byte 0 and the interrupt line deasserted.\<close>

theorem run_monitor_sequence:
  "run_monitor s =
     perform_all ([Set_mode RESET, Set_mode LOAD, Set_data 0xC0] @ pulse @
                  [Set_data 0x80] @ pulse @ [Set_data 0x00] @ pulse @
                  [Set_mode RESET, Set_mode RUN]) s
   \<and> returned (run_monitor s)
   \<and> mode_get (state_of (run_monitor s)) = RUN
   \<and> data_get (state_of (run_monitor s)) = 0x00
   \<and> ef4_n_get (state_of (run_monitor s)) = False
   \<and> trace (state_of (run_monitor s)) =
     (let g = portb s in trace s @
      [ReadPort PortB, WritePort PortB ((g AND NOT MODE) OR Mode_value RESET),
       ReadPort PortB, WritePort PortB ((g AND NOT MODE) OR Mode_value LOAD),
       WritePort PortA 0xC0,
       ReadPort PortB, WritePort PortB ((g AND NOT MODE) AND NOT EF4_N),
       Sleep_ms 5,
       ReadPort PortB, WritePort PortB ((g AND NOT MODE) OR EF4_N),
       WritePort PortA 0x80,
       ReadPort PortB, WritePort PortB ((g AND NOT MODE) AND NOT EF4_N),
       Sleep_ms 5,
       ReadPort PortB, WritePort PortB ((g AND NOT MODE) OR EF4_N),
       WritePort PortA 0x00,
       ReadPort PortB, WritePort PortB ((g AND NOT MODE) AND NOT EF4_N),
       Sleep_ms 5,
       ReadPort PortB, WritePort PortB ((g AND NOT MODE) OR EF4_N),
       ReadPort PortB, WritePort PortB ((g AND NOT MODE) OR EF4_N OR Mode_value RESET),
       ReadPort PortB, WritePort PortB ((g AND NOT MODE) OR EF4_N OR Mode_value RUN)])"
proof -
  have ops: "run_monitor s =
     perform_all ([Set_mode RESET, Set_mode LOAD, Set_data 0xC0] @ pulse @
                  [Set_data 0x80] @ pulse @ [Set_data 0x00] @ pulse @
                  [Set_mode RESET, Set_mode RUN]) s"
    by (simp add: run_monitor_def perform_all_def pulse_def press_input_def setter_eqs
        del: Mode_value.simps)
  have ret: "returned (run_monitor s)"
    unfolding ops by (rule perform_all_returned)
  have fin: "mode_get (state_of (run_monitor s)) = RUN"
    "data_get (state_of (run_monitor s)) = 0x00"
    "ef4_n_get (state_of (run_monitor s)) = False"
    by (simp_all add: run_monitor_def press_input_eq setter_eqs mode_get_def data_get_def
        ef4_n_get_def del: Mode_value.simps)
  have tr: "trace (state_of (run_monitor s)) =
     (let g = portb s in trace s @
      [ReadPort PortB, WritePort PortB ((g AND NOT MODE) OR Mode_value RESET),
       ReadPort PortB, WritePort PortB ((g AND NOT MODE) OR Mode_value LOAD),
       WritePort PortA 0xC0,
       ReadPort PortB, WritePort PortB ((g AND NOT MODE) AND NOT EF4_N),
       Sleep_ms 5,
       ReadPort PortB, WritePort PortB ((g AND NOT MODE) OR EF4_N),
       WritePort PortA 0x80,
       ReadPort PortB, WritePort PortB ((g AND NOT MODE) AND NOT EF4_N),
       Sleep_ms 5,
       ReadPort PortB, WritePort PortB ((g AND NOT MODE) OR EF4_N),
       WritePort PortA 0x00,
       ReadPort PortB, WritePort PortB ((g AND NOT MODE) AND NOT EF4_N),
       Sleep_ms 5,
       ReadPort PortB, WritePort PortB ((g AND NOT MODE) OR EF4_N),
       ReadPort PortB, WritePort PortB ((g AND NOT MODE) OR EF4_N OR Mode_value RESET),
       ReadPort PortB, WritePort PortB ((g AND NOT MODE) OR EF4_N OR Mode_value RUN)])"
    apply (simp add: run_monitor_def press_input_eq setter_eqs low8_simps Let_def
        del: Mode_value.simps)
    apply (intro conjI; rule bit_eqI; auto simp: byte_bits simp del: Mode_value.simps)
    done
  from ops ret fin tr show ?thesis by (simp only: simp_thms)
qed

text \<open>C2, as the code has it. With a first image of three bytes, a second of two and a
  third of one, \<open>load_monitor\<close> returns and performs exactly: mode RESET, mode LOAD,
  mem_protect false, each byte of image 1 written to data and pulsed, mode RESET, mode RUN,
  data 0x80 and pulse, data 0x00 and pulse, each byte of image 2 written and pulsed, mode
  RESET, mode RUN, data 0x84 and pulse, data 0x00 and pulse, the byte of image 3 written
  and pulsed, mode RESET. That makes ten pulses, six for the image bytes and four in the
  fixed steps, and ten writes of the data port, in the order given.\<close>

theorem load_monitor_sequence:
  assumes "fs ''bootstrap.bin'' = Some [b1, b2, b3]"
    and "fs ''max_mon.bin'' = Some [c1, c2]"
    and "fs ''max_bios.bin'' = Some [d1]"
  shows "load_monitor fs s =
     perform_all ([Set_mode RESET, Set_mode LOAD, Set_mem_protect False,
                   Set_data (uint b1)] @ pulse @
                  [Set_data (uint b2)] @ pulse @
                  [Set_data (uint b3)] @ pulse @
                  [Set_mode RESET, Set_mode RUN,
                   Set_data 0x80] @ pulse @
                  [Set_data 0x00] @ pulse @
                  [Set_data (uint c1)] @ pulse @
                  [Set_data (uint c2)] @ pulse @
                  [Set_mode RESET, Set_mode RUN,
                   Set_data 0x84] @ pulse @
                  [Set_data 0x00] @ pulse @
                  [Set_data (uint d1)] @ pulse @
                  [Set_mode RESET]) s
   \<and> returned (load_monitor fs s)
   \<and> sleeps (trace (state_of (load_monitor fs s))) = sleeps (trace s) + 10
   \<and> porta_writes (trace (state_of (load_monitor fs s))) =
       porta_writes (trace s) @
         [uint b1, uint b2, uint b3, 0x80, 0x00, uint c1, uint c2, 0x84, 0x00, uint d1]"
proof -
  note ops = load_monitor_ops [OF assms]
  have a: "load_monitor fs s =
     perform_all ([Set_mode RESET, Set_mode LOAD, Set_mem_protect False,
                   Set_data (uint b1)] @ pulse @
                  [Set_data (uint b2)] @ pulse @
                  [Set_data (uint b3)] @ pulse @
                  [Set_mode RESET, Set_mode RUN,
                   Set_data 0x80] @ pulse @
                  [Set_data 0x00] @ pulse @
                  [Set_data (uint c1)] @ pulse @
                  [Set_data (uint c2)] @ pulse @
                  [Set_mode RESET, Set_mode RUN,
                   Set_data 0x84] @ pulse @
                  [Set_data 0x00] @ pulse @
                  [Set_data (uint d1)] @ pulse @
                  [Set_mode RESET]) s"
    unfolding ops by (simp add: load_ops_def)
  have b: "returned (load_monitor fs s)"
    unfolding ops by (rule perform_all_returned)
  have c: "sleeps (trace (state_of (load_monitor fs s))) = sleeps (trace s) + 10"
    by (simp add: load_monitor_sleeps [OF assms])
  have d: "porta_writes (trace (state_of (load_monitor fs s))) =
       porta_writes (trace s) @
         [uint b1, uint b2, uint b3, 0x80, 0x00, uint c1, uint c2, 0x84, 0x00, uint d1]"
    by (simp add: load_monitor_porta [OF assms])
  from a b c d show ?thesis by (simp only: simp_thms)
qed

theorem load_monitor_sequence_witness:
  "images0 ''bootstrap.bin'' = Some [0x71, 0x00, 0xF8]
   \<and> images0 ''max_mon.bin'' = Some [0xC0, 0x80]
   \<and> images0 ''max_bios.bin'' = Some [0x30]
   \<and> returned (load_monitor images0 card0)
   \<and> sleeps (trace (state_of (load_monitor images0 card0))) = sleeps (trace card0) + 10"
proof -
  have h1: "images0 ''bootstrap.bin'' = Some [0x71, 0x00, 0xF8]"
    and h2: "images0 ''max_mon.bin'' = Some [0xC0, 0x80]"
    and h3: "images0 ''max_bios.bin'' = Some [0x30]"
    by (simp_all add: images0_def)
  from load_monitor_sequence [OF h1 h2 h3, of card0] h1 h2 h3
  show ?thesis by blast
qed

text \<open>C2 as stated fails on the number of pulses: with images of three, two and one
  bytes the whole of \<open>load_monitor\<close> pulses ten times, not six.\<close>

theorem load_monitor_ten_pulses:
  "sleeps (trace card0) = 0
   \<and> sleeps (trace (state_of (load_monitor images0 card0))) = 10
   \<and> sleeps (trace (state_of (load_monitor images0 card0))) \<noteq> 6"
proof -
  have h1: "images0 ''bootstrap.bin'' = Some [0x71, 0x00, 0xF8]"
    and h2: "images0 ''max_mon.bin'' = Some [0xC0, 0x80]"
    and h3: "images0 ''max_bios.bin'' = Some [0x30]"
    by (simp_all add: images0_def)
  have z: "sleeps (trace card0) = 0"
    by (simp add: card0_def sleeps_def)
  show ?thesis
    using load_monitor_sleeps [OF h1 h2 h3, of card0] z by simp
qed

section \<open>The encoding of the control port\<close>

lemma and_shl1_0: "(x::int) AND push_bit k 1 = 0 \<longleftrightarrow> \<not> bit x k"
proof -
  have "x AND push_bit k 1 = 0 \<longleftrightarrow> (\<forall>n. \<not> (bit x n \<and> n = k))"
    by (simp add: bit_eq_iff [where ?'a = int] bit_simps)
  then show ?thesis by blast
qed

lemma and_EF4_N_0: "x AND EF4_N = 0 \<longleftrightarrow> \<not> bit x 2"
  unfolding EF4_N_def by (rule and_shl1_0)

lemma and_STB_N_0: "x AND STB_N = 0 \<longleftrightarrow> \<not> bit x 1"
  unfolding STB_N_def by (rule and_shl1_0)

lemma and_MEM_PROTECT_0: "x AND MEM_PROTECT = 0 \<longleftrightarrow> \<not> bit x 0"
  unfolding MEM_PROTECT_def by (rule and_shl1_0)

lemma and_MODE_value:
  "x AND MODE = Mode_value m \<longleftrightarrow>
     (bit x 3 \<longleftrightarrow> m = PAUSE \<or> m = RUN) \<and> (bit x 4 \<longleftrightarrow> m = RESET \<or> m = RUN)"
proof -
  have "x AND MODE = Mode_value m \<longleftrightarrow>
     (\<forall>n. (bit x n \<and> (n = 3 \<or> n = 4)) =
           (n = 3 \<and> (m = PAUSE \<or> m = RUN) \<or> n = 4 \<and> (m = RESET \<or> m = RUN)))"
    by (simp add: bit_eq_iff [where ?'a = int] byte_bits del: Mode_value.simps)
  also have "\<dots> \<longleftrightarrow>
     (bit x 3 \<longleftrightarrow> m = PAUSE \<or> m = RUN) \<and> (bit x 4 \<longleftrightarrow> m = RESET \<or> m = RUN)"
  proof (rule iffI)
    assume a: "\<forall>n. (bit x n \<and> (n = 3 \<or> n = 4)) =
           (n = 3 \<and> (m = PAUSE \<or> m = RUN) \<or> n = 4 \<and> (m = RESET \<or> m = RUN))"
    from a [rule_format, of 3] a [rule_format, of 4]
    show "(bit x 3 \<longleftrightarrow> m = PAUSE \<or> m = RUN) \<and> (bit x 4 \<longleftrightarrow> m = RESET \<or> m = RUN)"
      by simp
  next
    assume "(bit x 3 \<longleftrightarrow> m = PAUSE \<or> m = RUN) \<and> (bit x 4 \<longleftrightarrow> m = RESET \<or> m = RUN)"
    then show "\<forall>n. (bit x n \<and> (n = 3 \<or> n = 4)) =
           (n = 3 \<and> (m = PAUSE \<or> m = RUN) \<or> n = 4 \<and> (m = RESET \<or> m = RUN))"
      by auto
  qed
  finally show ?thesis .
qed

lemma encoding_ok_bits:
  "encoding_ok s \<longleftrightarrow>
     (bit (portb s) 3 \<longleftrightarrow> self_mode s = PAUSE \<or> self_mode s = RUN)
     \<and> (bit (portb s) 4 \<longleftrightarrow> self_mode s = RESET \<or> self_mode s = RUN)
     \<and> (self_ef4_n s \<longleftrightarrow> \<not> bit (portb s) 2)
     \<and> (self_stb_n s \<longleftrightarrow> \<not> bit (portb s) 1)
     \<and> (self_mem_protect s \<longleftrightarrow> bit (portb s) 0)"
  by (auto simp: encoding_ok_def and_EF4_N_0 and_STB_N_0 and_MEM_PROTECT_0 and_MODE_value
      simp del: Mode_value.simps)

lemma Mode_of_value_value [simp]: "Mode_of_value (Mode_value m) = Some m"
  by (cases m) (simp_all add: Mode_of_value_def)

lemma mode_field_decodes: "\<exists>m. x AND MODE = Mode_value m"
proof -
  have "x AND MODE = Mode_value
     (if bit x 3 then (if bit x 4 then RUN else PAUSE) else (if bit x 4 then RESET else LOAD))"
    by (simp add: and_MODE_value del: Mode_value.simps)
  then show ?thesis ..
qed

lemma enc_data_set: "encoding_ok s \<Longrightarrow> encoding_ok (state_of (data_set v s))"
  by (simp add: encoding_ok_bits data_set_eq)

lemma enc_mode_set: "encoding_ok s \<Longrightarrow> encoding_ok (state_of (mode_set v s))"
proof (cases v)
  case (PyMode m)
  assume "encoding_ok s"
  then show ?thesis
    by (cases m) (simp_all add: PyMode encoding_ok_bits mode_set_Mode byte_bits
        del: Mode_value.simps)
qed (simp_all add: mode_set_def)

lemma enc_mem_protect_set: "encoding_ok s \<Longrightarrow> encoding_ok (state_of (mem_protect_set v s))"
  by (simp add: encoding_ok_bits mem_protect_set_eq byte_bits)

lemma enc_ef4_n_set: "encoding_ok s \<Longrightarrow> encoding_ok (state_of (ef4_n_set v s))"
  by (simp add: encoding_ok_bits ef4_n_set_eq byte_bits)

lemma enc_stb_n_set: "encoding_ok s \<Longrightarrow> encoding_ok (state_of (stb_n_set v s))"
  by (simp add: encoding_ok_bits stb_n_set_eq byte_bits)

lemma enc_sleep: "encoding_ok s \<Longrightarrow> encoding_ok (state_of (sleep n s))"
  by (simp add: encoding_ok_bits sleep_def)

lemma block_keeps:
  assumes "\<And>f t. f \<in> set fs \<Longrightarrow> P t \<Longrightarrow> P (state_of (f t))" and "P s"
  shows "P (state_of (block fs s))"
  using assms
proof (induction fs arbitrary: s)
  case Nil
  then show ?case by simp
next
  case (Cons f fs)
  have step: "P (state_of (f s))"
    using Cons.prems by simp
  show ?case
  proof (cases "f s")
    case (Returned s')
    with step have "P s'" by simp
    then have "P (state_of (block fs s'))"
      using Cons.prems(1) by (intro Cons.IH) simp_all
    then show ?thesis by (simp add: Returned)
  next
    case (Raised e s')
    with step show ?thesis by simp
  qed
qed

lemma block_keeps_all:
  assumes "list_all (\<lambda>f. \<forall>t. P t \<longrightarrow> P (state_of (f t))) fs" and "P s"
  shows "P (state_of (block fs s))"
proof (rule block_keeps [where P = P])
  show "P (state_of (f t))" if "f \<in> set fs" "P t" for f t
    using assms(1) that by (auto simp: list_all_iff)
  show "P s" by (rule assms(2))
qed

lemma enc_press_input: "encoding_ok s \<Longrightarrow> encoding_ok (state_of (press_input s))"
  unfolding press_input_def
  by (rule block_keeps_all) (simp_all add: enc_ef4_n_set enc_sleep)

lemma enc_perform: "encoding_ok s \<Longrightarrow> encoding_ok (state_of (perform x s))"
  by (cases x)
    (simp_all add: enc_mode_set enc_data_set enc_mem_protect_set enc_ef4_n_set enc_stb_n_set
      enc_sleep)

lemma enc_perform_all: "encoding_ok s \<Longrightarrow> encoding_ok (state_of (perform_all xs s))"
  by (induction xs arbitrary: s) (simp_all add: perform_all_Cons enc_perform)

lemma enc_load_program:
  "encoding_ok s \<Longrightarrow> encoding_ok (state_of (load_program fs name s))"
  by (simp add: load_program_def load_bytes_ops enc_perform_all split: option.splits)

lemma enc_load_monitor: "encoding_ok s \<Longrightarrow> encoding_ok (state_of (load_monitor fs s))"
  unfolding load_monitor_def
  by (rule block_keeps_all)
    (simp_all add: enc_mode_set enc_mem_protect_set enc_data_set enc_press_input
      enc_load_program)

lemma enc_run_monitor: "encoding_ok s \<Longrightarrow> encoding_ok (state_of (run_monitor s))"
  unfolding run_monitor_def
  by (rule block_keeps_all) (simp_all add: enc_mode_set enc_data_set enc_press_input)

lemma enc_on_key: "encoding_ok s \<Longrightarrow> encoding_ok (state_of (on_key fs key s))"
  by (simp add: on_key_def enc_ef4_n_set enc_data_set enc_mode_set enc_mem_protect_set
      enc_load_monitor enc_run_monitor)

lemma enc_on_release: "encoding_ok s \<Longrightarrow> encoding_ok (state_of (on_release key s))"
  unfolding on_release_def
  by (rule block_keeps_all) (simp_all add: enc_ef4_n_set enc_stb_n_set)

lemma enc_loop_body:
  "encoding_ok s \<Longrightarrow> encoding_ok (state_of (snd (snd (loop_body fs c mode s))))"
proof -
  assume ok: "encoding_ok s"
  have kb: "encoding_ok (state_of (block [data_set v, stb_n_set True] s))" for v
    by (rule block_keeps_all) (simp_all add: enc_data_set enc_stb_n_set ok)
  show ?thesis
    by (simp add: loop_body_def Let_def ok kb enc_on_key del: block.simps)
qed

lemma enc_card_loop:
  "encoding_ok s \<Longrightarrow> encoding_ok (state_of (snd (snd (card_loop fs cs mode s))))"
proof (induction cs arbitrary: mode s)
  case Nil
  then show ?case by simp
next
  case (Cons c cs)
  obtain d m r where b: "loop_body fs c mode s = (d, m, r)"
    by (cases "loop_body fs c mode s") auto
  have r: "encoding_ok (state_of r)"
    using enc_loop_body [OF Cons.prems, of fs c mode] by (simp add: b)
  show ?case
  proof (cases d)
    case True
    then show ?thesis using r by (simp add: b)
  next
    case False
    show ?thesis
    proof (cases r)
      case (Returned s')
      with r have "encoding_ok s'" by simp
      then show ?thesis using False Returned by (simp add: b Cons.IH)
    next
      case (Raised e s')
      with r show ?thesis using False by (simp add: b)
    qed
  qed
qed

lemma enc_while_body:
  "encoding_ok s \<Longrightarrow> encoding_ok (state_of (snd (snd (while_body tab fs got mode s))))"
proof -
  assume ok: "encoding_ok s"
  have kb: "encoding_ok (state_of (block [data_set v, stb_n_set True] s))" for v
    by (rule block_keeps_all) (simp_all add: enc_data_set enc_stb_n_set ok)
  show ?thesis
    by (simp add: while_body_def Let_def ok kb enc_on_key split: list.splits
        del: block.simps)
qed

lemma enc_while_loop:
  "encoding_ok s \<Longrightarrow> encoding_ok (state_of (snd (snd (while_loop tab fs gots mode s))))"
proof (induction gots arbitrary: mode s)
  case Nil
  then show ?case by simp
next
  case (Cons got gots)
  obtain d m r where b: "while_body tab fs got mode s = (d, m, r)"
    by (cases "while_body tab fs got mode s") auto
  have r: "encoding_ok (state_of r)"
    using enc_while_body [OF Cons.prems, of tab fs got mode] by (simp add: b)
  show ?case
  proof (cases d)
    case True
    then show ?thesis using r by (simp add: b)
  next
    case False
    show ?thesis
    proof (cases r)
      case (Returned s')
      with r have "encoding_ok s'" by simp
      then show ?thesis using False Returned by (simp add: b Cons.IH)
    next
      case (Raised e s')
      with r show ?thesis using False by (simp add: b)
    qed
  qed
qed

section \<open>What construction does\<close>

lemma Mode_of_value_Some: "Mode_of_value v = Some m \<Longrightarrow> v = Mode_value m"
  by (auto simp: Mode_of_value_def split: if_splits)

lemma Mode_of_value_field: "\<exists>m. Mode_of_value (x AND MODE) = Some m"
proof -
  obtain m where "x AND MODE = Mode_value m"
    using mode_field_decodes by blast
  then have "Mode_of_value (x AND MODE) = Some m"
    by (simp del: Mode_value.simps)
  then show ?thesis ..
qed

lemma init_port_a_cold:
  assumes "iodira (self_mcp s) \<noteq> 0"
  shows "init_port_a s =
     Returned (s\<lparr>self_data := 0,
       self_mcp := (self_mcp s)\<lparr>iodira := 0, gpioa := 0\<rparr>,
       trace := trace s @ [ReadDir PortA, WriteDir PortA OUTPUT, WritePort PortA 0]\<rparr>)"
  using assms
  by (simp add: init_port_a_def read_iodira_def write_iodira_def data_set_eq OUTPUT_def
      uint_0_iff)

lemma init_port_a_warm:
  assumes "iodira (self_mcp s) = 0"
  shows "init_port_a s =
     Returned (s\<lparr>self_data := uint (gpioa (self_mcp s)),
       trace := trace s @ [ReadDir PortA, ReadPort PortA]\<rparr>)"
  using assms
  by (simp add: init_port_a_def read_iodira_def read_gpioa_def OUTPUT_def uint_0_iff)

lemma init_port_b_warm:
  assumes "iodirb (self_mcp s) = 0"
  shows "\<exists>m. Mode_of_value (portb s AND MODE) = Some m \<and> init_port_b s =
     Returned (s\<lparr>self_mode := m,
       self_mem_protect := (portb s AND MEM_PROTECT \<noteq> 0),
       self_ef4_n := (portb s AND EF4_N = 0),
       self_stb_n := (portb s AND STB_N = 0),
       trace := trace s @ [ReadDir PortB, ReadPort PortB]\<rparr>)"
proof -
  obtain m where m: "Mode_of_value (portb s AND MODE) = Some m"
    using Mode_of_value_field by blast
  show ?thesis
    using assms m
    by (simp add: init_port_b_def read_iodirb_def read_gpiob_def OUTPUT_def uint_0_iff)
qed

lemma init_port_b_cold:
  assumes "iodirb (self_mcp s) \<noteq> 0"
  shows "init_port_b s =
     Returned (s\<lparr>self_mode := RESET,
       self_mem_protect := False, self_ef4_n := False, self_stb_n := False,
       self_mcp := (self_mcp s)\<lparr>iodirb := 0,
         gpiob := word_of_int
           (((portb s AND NOT MODE) OR Mode_value RESET OR EF4_N OR STB_N) AND NOT MEM_PROTECT)\<rparr>,
       trace := trace s @
         [ReadDir PortB, WriteDir PortB OUTPUT,
          ReadPort PortB, WritePort PortB ((portb s AND NOT MODE) OR Mode_value RESET),
          ReadPort PortB, WritePort PortB ((portb s AND NOT MODE) OR Mode_value RESET OR EF4_N),
          ReadPort PortB,
          WritePort PortB ((portb s AND NOT MODE) OR Mode_value RESET OR EF4_N OR STB_N),
          ReadPort PortB,
          WritePort PortB
            (((portb s AND NOT MODE) OR Mode_value RESET OR EF4_N OR STB_N)
               AND NOT MEM_PROTECT)]\<rparr>)"
  using assms
  by (simp add: init_port_b_def read_iodirb_def write_iodirb_def setter_eqs low8_simps
      OUTPUT_def uint_0_iff or.assoc del: Mode_value.simps)

lemma low8_uint [simp]: "low8 (uint (w :: byte)) = uint w"
  by (simp add: low8_def)

lemma outcome_case_id:
  "(case r of Returned x \<Rightarrow> block [] x | Raised e x \<Rightarrow> Raised e x) = r"
  by (cases r) simp_all

lemma init_port_a_eq:
  "init_port_a s = Returned
     (if iodira (self_mcp s) \<noteq> 0
      then s\<lparr>self_data := 0,
             self_mcp := (self_mcp s)\<lparr>iodira := 0, gpioa := 0\<rparr>,
             trace := trace s @ [ReadDir PortA, WriteDir PortA OUTPUT, WritePort PortA 0]\<rparr>
      else s\<lparr>self_data := uint (gpioa (self_mcp s)),
             trace := trace s @ [ReadDir PortA, ReadPort PortA]\<rparr>)"
  by (simp add: init_port_a_cold init_port_a_warm)

lemma Elf_init_eq:
  "Elf_init self chip =
     init_port_b (state_of (init_port_a (self\<lparr>self_mcp := MCP23017 chip, trace := []\<rparr>)))"
  by (simp add: Elf_init_def init_port_a_eq outcome_case_id)

lemma init_port_b_warm_facts:
  assumes "iodirb (self_mcp t) = 0"
  shows "returned (init_port_b t)"
    and "self_mcp (state_of (init_port_b t)) = self_mcp t"
    and "self_data (state_of (init_port_b t)) = self_data t"
    and "Mode_of_value (portb t AND MODE) = Some (self_mode (state_of (init_port_b t)))"
    and "self_ef4_n (state_of (init_port_b t)) = (portb t AND EF4_N = 0)"
    and "self_stb_n (state_of (init_port_b t)) = (portb t AND STB_N = 0)"
    and "self_mem_protect (state_of (init_port_b t)) = (portb t AND MEM_PROTECT \<noteq> 0)"
    and "trace (state_of (init_port_b t)) = trace t @ [ReadDir PortB, ReadPort PortB]"
    and "Mode_value (self_mode (state_of (init_port_b t))) = portb t AND MODE"
  using init_port_b_warm [OF assms] by (auto dest: Mode_of_value_Some)

lemma init_port_b_cold_facts:
  assumes "iodirb (self_mcp t) \<noteq> 0"
  shows "returned (init_port_b t)"
    and "iodirb (self_mcp (state_of (init_port_b t))) = 0"
    and "iodira (self_mcp (state_of (init_port_b t))) = iodira (self_mcp t)"
    and "gpioa (self_mcp (state_of (init_port_b t))) = gpioa (self_mcp t)"
    and "self_data (state_of (init_port_b t)) = self_data t"
    and "self_mode (state_of (init_port_b t)) = RESET"
    and "self_ef4_n (state_of (init_port_b t)) = False"
    and "self_stb_n (state_of (init_port_b t)) = False"
    and "self_mem_protect (state_of (init_port_b t)) = False"
    and "portb (state_of (init_port_b t)) =
           ((portb t AND NOT MODE) OR Mode_value RESET OR EF4_N OR STB_N) AND NOT MEM_PROTECT"
    and "trace (state_of (init_port_b t)) = trace t @
         [ReadDir PortB, WriteDir PortB OUTPUT,
          ReadPort PortB, WritePort PortB ((portb t AND NOT MODE) OR Mode_value RESET),
          ReadPort PortB, WritePort PortB ((portb t AND NOT MODE) OR Mode_value RESET OR EF4_N),
          ReadPort PortB,
          WritePort PortB ((portb t AND NOT MODE) OR Mode_value RESET OR EF4_N OR STB_N),
          ReadPort PortB,
          WritePort PortB
            (((portb t AND NOT MODE) OR Mode_value RESET OR EF4_N OR STB_N)
               AND NOT MEM_PROTECT)]"
  by (simp_all add: init_port_b_cold [OF assms] low8_simps del: Mode_value.simps)

lemma enc_init_port_b: "returned (init_port_b t) \<and> encoding_ok (state_of (init_port_b t))"
proof (cases "iodirb (self_mcp t) = 0")
  case True
  note f = init_port_b_warm_facts [OF True]
  have "portb t AND MODE = Mode_value (self_mode (state_of (init_port_b t)))"
    using f(4) by (rule Mode_of_value_Some)
  then show ?thesis
    by (simp add: encoding_ok_def f del: Mode_value.simps)
next
  case False
  note f = init_port_b_cold_facts [OF False]
  show ?thesis
    by (simp add: encoding_ok_bits f byte_bits del: Mode_value.simps)
qed

lemma enc_Elf_init: "returned (Elf_init self chip) \<and> encoding_ok (state_of (Elf_init self chip))"
  unfolding Elf_init_eq by (rule enc_init_port_b)

lemma Mode_UNIV: "(UNIV :: Mode set) = {LOAD, RESET, PAUSE, RUN}"
  using Mode.exhaust by auto

lemma Mode_value_bij: "bij_betw Mode_value UNIV {0, CLEAR_N, WAIT_N, CLEAR_N OR WAIT_N}"
proof -
  have inj: "inj Mode_value"
  proof (rule injI)
    fix x y
    assume "Mode_value x = Mode_value y"
    then show "x = y" by (cases x; cases y) simp_all
  qed
  have img: "range Mode_value = {0, CLEAR_N, WAIT_N, CLEAR_N OR WAIT_N}"
    by (auto simp: Mode_UNIV CLEAR_N_def WAIT_N_def)
  show ?thesis
    unfolding bij_betw_def using inj img by simp
qed

section \<open>Encoding and construction\<close>

text \<open>C4. The encoding of the control port. The mode values are the literals 0x00 (LOAD),
  0x08 (PAUSE), 0x10 (RESET) and 0x18 (RUN); WAIT_N is bit 4 and CLEAR_N bit 3, PAUSE is
  CLEAR_N alone, RESET is WAIT_N alone and RUN is both, and the four modes correspond one
  to one to the four combinations of the two bits. The agreement of the mirror with the
  port (the mode bits hold the value of the stored mode; the stored \<open>ef4_n\<close> and \<open>stb_n\<close>
  are the inverse of wire bits 2 and 1) holds after construction, whatever the
  expander held before, and every operation of the program keeps it: the five setters with any
  argument, the pulse, the loading of an image, both bootstrap protocols, the key
  dispatcher, the release handler, and the control loop on any sequence of characters
  (on eight-bit characters and on whatever \<open>getch\<close> returns).\<close>

theorem encoding_invariant:
  "Mode_value LOAD = 0x00 \<and> Mode_value PAUSE = 0x08
   \<and> Mode_value RESET = 0x10 \<and> Mode_value RUN = 0x18
   \<and> WAIT_N = 2 ^ 4 \<and> CLEAR_N = 2 ^ 3 \<and> EF4_N = 2 ^ 2 \<and> STB_N = 2 ^ 1
   \<and> Mode_value PAUSE = CLEAR_N \<and> Mode_value RESET = WAIT_N
   \<and> Mode_value RUN = (CLEAR_N OR WAIT_N)
   \<and> bij_betw Mode_value UNIV {0, CLEAR_N, WAIT_N, CLEAR_N OR WAIT_N}
   \<and> encoding_ok (state_of (Elf_init self dev))
   \<and> (encoding_ok s \<longrightarrow>
        portb s AND MODE = Mode_value (mode_get s)
        \<and> (ef4_n_get s \<longleftrightarrow> \<not> bit (portb s) 2)
        \<and> (stb_n_get s \<longleftrightarrow> \<not> bit (portb s) 1)
        \<and> encoding_ok (state_of (data_set v s))
        \<and> encoding_ok (state_of (mode_set pv s))
        \<and> encoding_ok (state_of (mem_protect_set b s))
        \<and> encoding_ok (state_of (ef4_n_set b s))
        \<and> encoding_ok (state_of (stb_n_set b s))
        \<and> encoding_ok (state_of (press_input s))
        \<and> encoding_ok (state_of (load_program fs name s))
        \<and> encoding_ok (state_of (load_monitor fs s))
        \<and> encoding_ok (state_of (run_monitor s))
        \<and> encoding_ok (state_of (on_key fs key s))
        \<and> encoding_ok (state_of (on_release key s))
        \<and> encoding_ok (state_of (snd (snd (loop_body fs c cm s))))
        \<and> encoding_ok (state_of (snd (snd (card_loop fs cs cm s))))
        \<and> encoding_ok (state_of (snd (snd (while_body tab fs got cm s))))
        \<and> encoding_ok (state_of (snd (snd (while_loop tab fs gots cm s)))))"
proof -
  have vals: "Mode_value LOAD = 0x00 \<and> Mode_value PAUSE = 0x08
      \<and> Mode_value RESET = 0x10 \<and> Mode_value RUN = 0x18
      \<and> WAIT_N = 2 ^ 4 \<and> CLEAR_N = 2 ^ 3 \<and> EF4_N = 2 ^ 2 \<and> STB_N = 2 ^ 1
      \<and> Mode_value PAUSE = CLEAR_N \<and> Mode_value RESET = WAIT_N
      \<and> Mode_value RUN = (CLEAR_N OR WAIT_N)"
    by (simp add: WAIT_N_def CLEAR_N_def EF4_N_def STB_N_def)
  have init: "encoding_ok (state_of (Elf_init self dev))"
    using enc_Elf_init by blast
  have keep: "portb s AND MODE = Mode_value (mode_get s)
        \<and> (ef4_n_get s \<longleftrightarrow> \<not> bit (portb s) 2)
        \<and> (stb_n_get s \<longleftrightarrow> \<not> bit (portb s) 1)
        \<and> encoding_ok (state_of (data_set v s))
        \<and> encoding_ok (state_of (mode_set pv s))
        \<and> encoding_ok (state_of (mem_protect_set b s))
        \<and> encoding_ok (state_of (ef4_n_set b s))
        \<and> encoding_ok (state_of (stb_n_set b s))
        \<and> encoding_ok (state_of (press_input s))
        \<and> encoding_ok (state_of (load_program fs name s))
        \<and> encoding_ok (state_of (load_monitor fs s))
        \<and> encoding_ok (state_of (run_monitor s))
        \<and> encoding_ok (state_of (on_key fs key s))
        \<and> encoding_ok (state_of (on_release key s))
        \<and> encoding_ok (state_of (snd (snd (loop_body fs c cm s))))
        \<and> encoding_ok (state_of (snd (snd (card_loop fs cs cm s))))
        \<and> encoding_ok (state_of (snd (snd (while_body tab fs got cm s))))
        \<and> encoding_ok (state_of (snd (snd (while_loop tab fs gots cm s))))"
    if ok: "encoding_ok s"
  proof -
    have "portb s AND MODE = Mode_value (mode_get s)"
      using ok by (simp add: encoding_ok_def mode_get_def)
    moreover have "(ef4_n_get s \<longleftrightarrow> \<not> bit (portb s) 2) \<and> (stb_n_get s \<longleftrightarrow> \<not> bit (portb s) 1)"
      using ok by (simp add: encoding_ok_bits ef4_n_get_def stb_n_get_def)
    ultimately show ?thesis
      using ok
      by (simp only: enc_data_set enc_mode_set enc_mem_protect_set enc_ef4_n_set enc_stb_n_set
          enc_press_input enc_load_program enc_load_monitor enc_run_monitor enc_on_key
          enc_on_release enc_loop_body enc_card_loop enc_while_body enc_while_loop simp_thms)
  qed
  from vals Mode_value_bij init keep show ?thesis by blast
qed

theorem encoding_invariant_witness:
  "encoding_ok card0
   \<and> encoding_ok (state_of (run_monitor card0))
   \<and> encoding_ok (state_of (load_monitor images0 card0))
   \<and> encoding_ok (state_of (mode_set (PyInt 7) card0))
   \<and> (ef4_n_get card0 \<longleftrightarrow> \<not> bit (portb card0) 2)"
proof -
  have h: "encoding_ok card0"
    by (simp add: encoding_ok_def card0_def MODE_def CLEAR_N_def WAIT_N_def EF4_N_def
        STB_N_def MEM_PROTECT_def)
  from encoding_invariant [where s = card0 and fs = images0 and pv = "PyInt 7"] h
  show ?thesis by blast
qed

text \<open>What the second branch of each port does when it is reached: a port whose
  direction register reads all-output is only read, and the attributes take what the byte
  found decodes to.\<close>

lemma init_port_a_adopts:
  assumes "iodira (self_mcp t) = 0"
  shows "init_port_a t =
     Returned (t\<lparr>self_data := uint (gpioa (self_mcp t)),
       trace := trace t @ [ReadDir PortA, ReadPort PortA]\<rparr>)"
  by (rule init_port_a_warm [OF assms])

lemma init_port_b_adopts:
  assumes "iodirb (self_mcp t) = 0"
  shows "returned (init_port_b t)
    \<and> self_mcp (state_of (init_port_b t)) = self_mcp t
    \<and> Mode_value (self_mode (state_of (init_port_b t))) = portb t AND MODE
    \<and> self_ef4_n (state_of (init_port_b t)) = (\<not> bit (portb t) 2)
    \<and> self_stb_n (state_of (init_port_b t)) = (\<not> bit (portb t) 1)
    \<and> self_mem_protect (state_of (init_port_b t)) = bit (portb t) 0
    \<and> trace (state_of (init_port_b t)) = trace t @ [ReadDir PortB, ReadPort PortB]"
  using init_port_b_warm_facts [OF assms]
  by (simp add: and_EF4_N_0 and_STB_N_0 and_MEM_PROTECT_0)

text \<open>C6. The code does not do what the claim says for a port that is already configured
  as output. Whatever the expander holds when the program starts, the constructor of the
  handle has made both ports inputs before \<open>Elf.__init__\<close> reads the direction
  registers, so for both ports it takes the first branch: it sets the direction register
  to all-output and writes the defaults through the setters (data 0; mode RESET, \<open>ef4_n\<close>,
  \<open>stb_n\<close> and \<open>mem_protect\<close> false), and these are what the getters then return. The
  calls it makes are exactly the eleven listed; neither port is read for adoption. On the
  expander \<open>dev_warm\<close>, whose two direction registers read all-output, whose data port
  holds 0xA5 and whose control port decodes to mode RUN with the strobe asserted, the
  getters return data 0, mode RESET and \<open>stb_n\<close> false after construction, and the data
  port has been overwritten with 0.\<close>

theorem construction_resets_configured_ports:
  "(let r = Elf_init self chip; s' = state_of r; g = uint (gpiob chip)
    in returned r
     \<and> data_get s' = 0 \<and> mode_get s' = RESET \<and> mem_protect_get s' = False
     \<and> ef4_n_get s' = False \<and> stb_n_get s' = False
     \<and> iodira (self_mcp s') = 0 \<and> iodirb (self_mcp s') = 0
     \<and> gpioa (self_mcp s') = 0
     \<and> portb s' = ((g AND NOT MODE) OR Mode_value RESET OR EF4_N OR STB_N)
                     AND NOT MEM_PROTECT
     \<and> trace s' =
         [ReadDir PortA, WriteDir PortA OUTPUT, WritePort PortA 0,
          ReadDir PortB, WriteDir PortB OUTPUT,
          ReadPort PortB, WritePort PortB ((g AND NOT MODE) OR Mode_value RESET),
          ReadPort PortB, WritePort PortB ((g AND NOT MODE) OR Mode_value RESET OR EF4_N),
          ReadPort PortB,
          WritePort PortB ((g AND NOT MODE) OR Mode_value RESET OR EF4_N OR STB_N),
          ReadPort PortB,
          WritePort PortB
            (((g AND NOT MODE) OR Mode_value RESET OR EF4_N OR STB_N)
               AND NOT MEM_PROTECT)])
   \<and> iodira dev_warm = 0 \<and> iodirb dev_warm = 0
   \<and> uint (gpioa dev_warm) = 0xA5
   \<and> uint (gpiob dev_warm) AND MODE = Mode_value RUN
   \<and> \<not> bit (uint (gpiob dev_warm)) 1
   \<and> data_get (state_of (Elf_init card0 dev_warm)) = 0
   \<and> mode_get (state_of (Elf_init card0 dev_warm)) = RESET
   \<and> stb_n_get (state_of (Elf_init card0 dev_warm)) = False
   \<and> gpioa (self_mcp (state_of (Elf_init card0 dev_warm))) = 0"
proof -
  note getters = data_get_def mode_get_def mem_protect_get_def ef4_n_get_def stb_n_get_def
  have gen: "let r = Elf_init self' chip'; s' = state_of r; g = uint (gpiob chip')
    in returned r
     \<and> data_get s' = 0 \<and> mode_get s' = RESET \<and> mem_protect_get s' = False
     \<and> ef4_n_get s' = False \<and> stb_n_get s' = False
     \<and> iodira (self_mcp s') = 0 \<and> iodirb (self_mcp s') = 0
     \<and> gpioa (self_mcp s') = 0
     \<and> portb s' = ((g AND NOT MODE) OR Mode_value RESET OR EF4_N OR STB_N)
                     AND NOT MEM_PROTECT
     \<and> trace s' =
         [ReadDir PortA, WriteDir PortA OUTPUT, WritePort PortA 0,
          ReadDir PortB, WriteDir PortB OUTPUT,
          ReadPort PortB, WritePort PortB ((g AND NOT MODE) OR Mode_value RESET),
          ReadPort PortB, WritePort PortB ((g AND NOT MODE) OR Mode_value RESET OR EF4_N),
          ReadPort PortB,
          WritePort PortB ((g AND NOT MODE) OR Mode_value RESET OR EF4_N OR STB_N),
          ReadPort PortB,
          WritePort PortB
            (((g AND NOT MODE) OR Mode_value RESET OR EF4_N OR STB_N)
               AND NOT MEM_PROTECT)]" for self' chip'
  proof -
    define c where "c = MCP23017 chip'"
    have c: "iodira c = 0xFF" "iodirb c = 0xFF" "gpiob c = gpiob chip'"
      by (simp_all add: c_def MCP23017_def)
    let ?s0 = "self'\<lparr>self_mcp := c, trace := []\<rparr>"
    have e: "Elf_init self' chip' = init_port_b (state_of (init_port_a ?s0))"
      by (simp only: Elf_init_eq c_def)
    have a: "iodira (self_mcp ?s0) \<noteq> 0"
      by (simp add: c)
    note A = init_port_a_cold [OF a]
    have b: "iodirb (self_mcp (state_of (init_port_a ?s0))) \<noteq> 0"
      by (simp add: A c)
    show ?thesis
      using init_port_b_cold_facts [OF b]
      by (simp add: Let_def e getters A c del: Mode_value.simps)
  qed
  have w: "iodira dev_warm = 0 \<and> iodirb dev_warm = 0
     \<and> uint (gpioa dev_warm) = 0xA5
     \<and> uint (gpiob dev_warm) AND MODE = Mode_value RUN
     \<and> \<not> bit (uint (gpiob dev_warm)) 1"
    by (simp add: dev_warm_def MODE_def CLEAR_N_def WAIT_N_def)
  have at: "data_get (state_of (Elf_init card0 dev_warm)) = 0
     \<and> mode_get (state_of (Elf_init card0 dev_warm)) = RESET
     \<and> stb_n_get (state_of (Elf_init card0 dev_warm)) = False
     \<and> gpioa (self_mcp (state_of (Elf_init card0 dev_warm))) = 0"
    using gen [of card0 dev_warm] by (simp add: Let_def)
  from gen [of self chip] w at show ?thesis by blast
qed

section \<open>The key dispatcher and the control loop\<close>

lemma hex_digits_set:
  "c \<in> set hex_digits \<longleftrightarrow>
     c = CHR ''0'' \<or> c = CHR ''1'' \<or> c = CHR ''2'' \<or> c = CHR ''3''
     \<or> c = CHR ''4'' \<or> c = CHR ''5'' \<or> c = CHR ''6'' \<or> c = CHR ''7''
     \<or> c = CHR ''8'' \<or> c = CHR ''9'' \<or> c = CHR ''a'' \<or> c = CHR ''b''
     \<or> c = CHR ''c'' \<or> c = CHR ''d'' \<or> c = CHR ''e'' \<or> c = CHR ''f''"
  by (simp add: hex_digits_def)

lemma nibble_values:
  "nibble_value (CHR ''0'') = 0x0" "nibble_value (CHR ''1'') = 0x1"
  "nibble_value (CHR ''2'') = 0x2" "nibble_value (CHR ''3'') = 0x3"
  "nibble_value (CHR ''4'') = 0x4" "nibble_value (CHR ''5'') = 0x5"
  "nibble_value (CHR ''6'') = 0x6" "nibble_value (CHR ''7'') = 0x7"
  "nibble_value (CHR ''8'') = 0x8" "nibble_value (CHR ''9'') = 0x9"
  "nibble_value (CHR ''a'') = 0xA" "nibble_value (CHR ''b'') = 0xB"
  "nibble_value (CHR ''c'') = 0xC" "nibble_value (CHR ''d'') = 0xD"
  "nibble_value (CHR ''e'') = 0xE" "nibble_value (CHR ''f'') = 0xF"
  by (simp_all add: nibble_value_def hex_digits_def)

lemma nibble_range:
  "c \<in> set hex_digits \<Longrightarrow> 0 \<le> nibble_value c \<and> nibble_value c < 16"
  unfolding hex_digits_set by (elim disjE) (simp_all add: nibble_values)

lemma on_key_hex:
  "c \<in> set hex_digits \<Longrightarrow> on_key fs c s = data_set (shift_in (data_get s) c) s"
  unfolding hex_digits_set by (elim disjE) (simp_all add: on_key_def shift_in_def nibble_values)

lemma lower_hex: "c \<in> set hex_digits \<Longrightarrow> lower c = c"
  unfolding hex_digits_set by (elim disjE) (simp_all add: lower_def)

lemma hex_not_special:
  "c \<in> set hex_digits \<Longrightarrow> c \<noteq> CHR ''q'' \<and> (of_char c :: nat) \<noteq> 0"
  unfolding hex_digits_set by (elim disjE) simp_all

lemma loop_body_hex:
  "c \<in> set hex_digits \<Longrightarrow>
     loop_body fs c CONTROL s = (False, CONTROL, data_set (shift_in (data_get s) c) s)"
  using hex_not_special [of c]
  by (simp add: loop_body_def lower_hex on_key_hex)

lemma card_loop_hex:
  "set cs \<subseteq> set hex_digits \<Longrightarrow>
     \<exists>s'. card_loop fs cs CONTROL s = (False, CONTROL, Returned s')
          \<and> self_data s' = foldl shift_in (self_data s) cs"
proof (induction cs arbitrary: s)
  case Nil
  then show ?case by simp
next
  case (Cons c cs)
  then have c: "c \<in> set hex_digits" and cs: "set cs \<subseteq> set hex_digits"
    by simp_all
  let ?s1 = "state_of (data_set (shift_in (data_get s) c) s)"
  have step: "card_loop fs (c # cs) CONTROL s = card_loop fs cs CONTROL ?s1"
    by (simp add: loop_body_hex [OF c] data_set_eq)
  have d: "self_data ?s1 = shift_in (self_data s) c"
    by (simp add: data_set_eq data_get_def)
  from Cons.IH [OF cs, of ?s1] show ?case
    by (simp only: step d foldl_Cons)
qed

lemma shift_in_twice_bits:
  "(push_bit 4 ((push_bit 4 d OR take_bit 4 x) AND mask 8) OR take_bit 4 y) AND mask 8
     = push_bit 4 (take_bit 4 x) OR take_bit 4 (y::int)"
  by (rule bit_eqI) (auto simp: bit_simps)

lemma shift_in_twice:
  assumes "a \<in> set hex_digits" "b \<in> set hex_digits"
  shows "shift_in (shift_in d a) b = push_bit 4 (nibble_value a) OR nibble_value b"
proof -
  have a: "take_bit 4 (nibble_value a) = nibble_value a"
    using nibble_range [OF assms(1)] by (simp add: take_bit_int_eq_self)
  have b: "take_bit 4 (nibble_value b) = nibble_value b"
    using nibble_range [OF assms(2)] by (simp add: take_bit_int_eq_self)
  have m: "(0xFF :: int) = mask 8"
    by (simp add: mask_eq_exp_minus_1)
  show ?thesis
    using shift_in_twice_bits [of d "nibble_value a" "nibble_value b"]
    by (simp only: shift_in_def m a b)
qed

lemma foldl_last_two:
  assumes "length cs = 10" "set cs \<subseteq> set hex_digits"
  shows "foldl shift_in d cs = push_bit 4 (nibble_value (cs ! 8)) OR nibble_value (cs ! 9)"
proof -
  have cs: "cs = take 8 cs @ [cs ! 8, cs ! 9]"
    using assms(1) by (intro nth_equalityI) (auto simp: nth_append less_Suc_eq numeral_eq_Suc)
  have mem: "cs ! 8 \<in> set hex_digits" "cs ! 9 \<in> set hex_digits"
    using assms by (auto simp: subset_iff)
  have "foldl shift_in d cs = foldl shift_in d (take 8 cs @ [cs ! 8, cs ! 9])"
    using cs by simp
  also have "\<dots> = shift_in (shift_in (foldl shift_in d (take 8 cs)) (cs ! 8)) (cs ! 9)"
    by simp
  also have "\<dots> = push_bit 4 (nibble_value (cs ! 8)) OR nibble_value (cs ! 9)"
    by (rule shift_in_twice [OF mem])
  finally show ?thesis .
qed

lemma lower_A: "lower (CHR ''A'') = CHR ''a''"
  by (simp add: lower_def char_of_def bit_Suc_0_iff)

lemma keyboard_block:
  "block [data_set v, stb_n_set True] s =
     Returned (s\<lparr>self_data := v, self_stb_n := True,
       self_mcp := (self_mcp s)\<lparr>gpioa := word_of_int v,
         gpiob := word_of_int (portb s AND NOT STB_N)\<rparr>,
       trace := trace s @
         [WritePort PortA v, ReadPort PortB, WritePort PortB (portb s AND NOT STB_N)]\<rparr>)"
  by (simp add: setter_eqs)

lemma on_release_eq:
  "on_release key s =
     Returned (s\<lparr>self_ef4_n := False, self_stb_n := False,
       self_mcp := (self_mcp s)\<lparr>gpiob := word_of_int (portb s OR EF4_N OR STB_N)\<rparr>,
       trace := trace s @
         [ReadPort PortB, WritePort PortB (portb s OR EF4_N),
          ReadPort PortB, WritePort PortB (portb s OR EF4_N OR STB_N)]\<rparr>)"
  by (simp add: on_release_def setter_eqs low8_simps or.assoc)

lemma of_char_lt_256: "(of_char c :: nat) < 256"
proof -
  have "(of_char c :: nat) mod 256 < 256"
    by (rule mod_less_divisor) simp
  then show ?thesis
    by (simp only: of_char_mod_256)
qed

text \<open>A hex digit is an ASCII character that is no capital, so the loop body on what
  \<open>getch\<close> returns treats it as the loop body on eight-bit characters does, whatever the
  lower-casing tables beyond ASCII.\<close>

lemma lower_of_hex:
  "c \<in> set hex_digits \<Longrightarrow> lower_of tab (Some (of_char c)) = [of_char c]"
  unfolding hex_digits_set by (elim disjE) (simp_all add: lower_of_def)

lemma while_body_hex:
  assumes "c \<in> set hex_digits"
  shows "while_body tab fs (Some (of_char c)) mode s = loop_body fs c mode s"
proof -
  have lt: "(of_char c :: nat) < 256"
    by (rule of_char_lt_256)
  have q: "(of_char c :: nat) = of_char (CHR ''q'') \<longleftrightarrow> c = CHR ''q''"
    by (rule of_char_eq_iff)
  show ?thesis
    unfolding while_body_def loop_body_def lower_of_hex [OF assms] lower_hex [OF assms] Let_def
    using lt q by (simp add: of_nat_of_char del: block.simps of_char_eq_iff)
qed

lemma while_loop_hex:
  "set cs \<subseteq> set hex_digits \<Longrightarrow>
     while_loop tab fs (map (\<lambda>c. Some (of_char c)) cs) mode s = card_loop fs cs mode s"
  by (induction cs arbitrary: mode s)
    (auto simp: while_body_hex split: prod.splits bool.splits outcome.splits)

text \<open>C7. In CONTROL mode, each of the sixteen symbols \<open>0\<close> to \<open>9\<close> and \<open>a\<close> to \<open>f\<close> is
  dispatched to \<open>on_key\<close>, which sets data to ((data << 4) | value of the digit) & 0xFF and
  leaves the loop running in CONTROL mode. From data 0x05 the key \<open>1\<close> gives 0x51. After
  any ten hex digits in a row, from any starting value of data, the loop is still running
  in CONTROL mode and data is the byte made of the ninth digit (high four bits) and the
  tenth (low four bits). This is so for the loop body on eight-bit characters and for the
  loop body on what \<open>getch\<close> returns, which agree on hex digits whatever the lower-casing
  tables are.\<close>

theorem hex_digit_dispatch:
  "(c \<in> set hex_digits \<longrightarrow>
      loop_body fs c CONTROL s =
        (False, CONTROL, data_set ((push_bit 4 (data_get s) OR nibble_value c) AND 0xFF) s)
      \<and> on_key fs c s = data_set ((push_bit 4 (data_get s) OR nibble_value c) AND 0xFF) s
      \<and> data_get (state_of (on_key fs c s)) =
          (push_bit 4 (data_get s) OR nibble_value c) AND 0xFF
      \<and> while_body tab fs (Some (of_char c)) CONTROL s =
          (False, CONTROL, data_set ((push_bit 4 (data_get s) OR nibble_value c) AND 0xFF) s))
   \<and> (data_get s = 0x05 \<longrightarrow> data_get (state_of (on_key fs (CHR ''1'') s)) = 0x51)
   \<and> (length cs = 10 \<and> set cs \<subseteq> set hex_digits \<longrightarrow>
        (let (done, mode, r) = card_loop fs cs CONTROL s
         in \<not> done \<and> mode = CONTROL \<and> returned r
            \<and> data_get (state_of r) =
                push_bit 4 (nibble_value (cs ! 8)) OR nibble_value (cs ! 9))
        \<and> while_loop tab fs (map (\<lambda>c. Some (of_char c)) cs) CONTROL s =
            card_loop fs cs CONTROL s)"
proof (intro conjI impI)
  assume c: "c \<in> set hex_digits"
  show b: "loop_body fs c CONTROL s =
        (False, CONTROL, data_set ((push_bit 4 (data_get s) OR nibble_value c) AND 0xFF) s)"
    using loop_body_hex [OF c] by (simp add: shift_in_def)
  show "while_body tab fs (Some (of_char c)) CONTROL s =
          (False, CONTROL, data_set ((push_bit 4 (data_get s) OR nibble_value c) AND 0xFF) s)"
    by (simp only: while_body_hex [OF c] b)
  show k: "on_key fs c s = data_set ((push_bit 4 (data_get s) OR nibble_value c) AND 0xFF) s"
    using on_key_hex [OF c] by (simp add: shift_in_def)
  show "data_get (state_of (on_key fs c s)) =
          (push_bit 4 (data_get s) OR nibble_value c) AND 0xFF"
    unfolding k by (simp add: data_set_eq data_get_def)
next
  assume "data_get s = 0x05"
  then show "data_get (state_of (on_key fs (CHR ''1'') s)) = 0x51"
    by (simp add: on_key_def data_set_eq data_get_def)
next
  assume a: "length cs = 10 \<and> set cs \<subseteq> set hex_digits"
  then obtain s' where s': "card_loop fs cs CONTROL s = (False, CONTROL, Returned s')"
    and d: "self_data s' = foldl shift_in (self_data s) cs"
    using card_loop_hex [of cs fs s] by blast
  have "self_data s' = push_bit 4 (nibble_value (cs ! 8)) OR nibble_value (cs ! 9)"
    unfolding d using a by (intro foldl_last_two) simp_all
  then show "let (done, mode, r) = card_loop fs cs CONTROL s
         in \<not> done \<and> mode = CONTROL \<and> returned r
            \<and> data_get (state_of r) =
                push_bit 4 (nibble_value (cs ! 8)) OR nibble_value (cs ! 9)"
    by (simp add: s' data_get_def)
  show "while_loop tab fs (map (\<lambda>c. Some (of_char c)) cs) CONTROL s =
            card_loop fs cs CONTROL s"
    using a by (intro while_loop_hex) simp
qed

theorem hex_digit_dispatch_witness:
  "CHR ''a'' \<in> set hex_digits
   \<and> data_get card0 = 0x05
   \<and> data_get (state_of (on_key images0 (CHR ''a'') card0)) = 0x5A
   \<and> data_get (state_of (on_key images0 (CHR ''1'') card0)) = 0x51
   \<and> length ''0123456789'' = 10 \<and> set ''0123456789'' \<subseteq> set hex_digits
   \<and> data_get (state_of (snd (snd (card_loop images0 ''0123456789'' CONTROL card0)))) = 0x89"
proof -
  have h1: "CHR ''a'' \<in> set hex_digits"
    by (simp add: hex_digits_def)
  have h2: "data_get card0 = 0x05"
    by (simp add: data_get_def card0_def)
  have h3: "length ''0123456789'' = 10 \<and> set ''0123456789'' \<subseteq> set hex_digits"
    by (simp add: hex_digits_def)
  note t1 = hex_digit_dispatch
    [where c = "CHR ''a''" and fs = images0 and s = card0 and cs = "''0123456789''"]
  from t1 h1 have a: "data_get (state_of (on_key images0 (CHR ''a'') card0)) =
      (push_bit 4 (data_get card0) OR nibble_value (CHR ''a'')) AND 0xFF"
    by blast
  from t1 h2 have b: "data_get (state_of (on_key images0 (CHR ''1'') card0)) = 0x51"
    by blast
  from t1 h3 have c: "let (done, mode, r) = card_loop images0 ''0123456789'' CONTROL card0
         in \<not> done \<and> mode = CONTROL \<and> returned r
            \<and> data_get (state_of r) =
                push_bit 4 (nibble_value (''0123456789'' ! 8)) OR nibble_value (''0123456789'' ! 9)"
    by blast
  have a': "data_get (state_of (on_key images0 (CHR ''a'') card0)) = 0x5A"
    unfolding a by (simp add: h2 nibble_values)
  obtain d m r where e: "card_loop images0 ''0123456789'' CONTROL card0 = (d, m, r)"
    by (rule prod_cases3)
  from c have "data_get (state_of r) =
      push_bit 4 (nibble_value (''0123456789'' ! 8)) OR nibble_value (''0123456789'' ! 9)"
    unfolding e by simp
  then have c': "data_get (state_of (snd (snd (card_loop images0 ''0123456789'' CONTROL card0)))) = 0x89"
    unfolding e by (simp add: nibble_values)
  from h1 h2 h3 a' b c' show ?thesis by blast
qed

subsection \<open>The loop body on any received character\<close>

text \<open>On a character below 256, with lower-casing tables that agree with Latin-1 there,
  the loop body is the one on eight-bit characters.\<close>

lemma lower_of_char:
  assumes "latin1_lower tab"
  shows "lower_of tab (Some (of_char c)) = [of_char (lower c)]"
proof (cases "(of_char c :: nat) < 128")
  case True
  then show ?thesis
    by (auto simp: lower_of_def lower_def Let_def)
next
  case False
  have "(of_char c :: nat) < 256"
    by (rule of_char_lt_256)
  with False assms have "tab (of_char c) = [of_char (lower (char_of (of_char c :: nat)))]"
    by (simp add: latin1_lower_def)
  with False show ?thesis
    by (simp add: lower_of_def)
qed

lemma while_body_char:
  assumes "latin1_lower tab"
  shows "while_body tab fs (Some (of_char c)) mode s = loop_body fs c mode s"
proof -
  have lt: "(of_char (lower c) :: nat) < 256"
    by (rule of_char_lt_256)
  have q: "(of_char (lower c) :: nat) = of_char (CHR ''q'') \<longleftrightarrow> lower c = CHR ''q''"
    by (rule of_char_eq_iff)
  show ?thesis
    unfolding while_body_def loop_body_def lower_of_char [OF assms] Let_def
    using lt q by (simp add: of_nat_of_char del: block.simps of_char_eq_iff)
qed

text \<open>\<open>ord\<close> refuses what is not exactly one character: the empty string that \<open>getch\<close>
  returns at the end of the input, and a character whose lower case is longer than one
  character. Nothing is written then.\<close>

lemma while_body_TypeError:
  "length (lower_of tab got) \<noteq> 1 \<Longrightarrow>
     while_body tab fs got mode s = (False, mode, Raised TypeError s)"
  by (cases "lower_of tab got") (auto simp: while_body_def Let_def split: list.splits)

text \<open>The strobe after a symbol in KEYBOARD mode: entering KEYBOARD mode and receiving
  \<open>x\<close> leaves \<open>stb_n\<close> asserted, and \<open>x\<close> is not among the keys whose release calls the
  handler that would deassert it.\<close>

lemma strobe_after_keyboard_symbol:
  "(let (done, mode, r) = while_loop no_case images0 [Some 0, Some (of_char (CHR ''x''))]
                            CONTROL card0
    in \<not> done \<and> mode = KEYBOARD \<and> returned r \<and> stb_n_get (state_of r)
       \<and> \<not> bit (portb (state_of r)) 1)
   \<and> CHR ''x'' \<notin> set (fst (run_card no_case images0 [] card0))"
  by (simp add: while_body_def lower_of_def run_card_def release_keys_def setter_eqs
      stb_n_get_def card0_def STB_N_def bit_simps)

text \<open>C8, as the code has it. In KEYBOARD mode, whatever \<open>getch\<close> returns whose lower
  case is one character \<open>n\<close> other than \<open>q\<close> and other than the character with code 0
  makes the loop write \<open>ord\<close> of that lower-cased character to data, as it is, and then
  set \<open>stb_n\<close> to true, which clears wire bit 1; the loop goes on in KEYBOARD mode. (\<open>q\<close>
  and \<open>Q\<close> end the loop and code 0 toggles the mode, in either mode.) \<open>on_release\<close> sets
  \<open>ef4_n\<close> to false and then \<open>stb_n\<close> to false, whatever the key and whatever the
  interaction mode (it does not look at either), setting wire bits 2 and 1.\<close>

theorem keyboard_mode_and_release:
  "(lower_of tab got = [n] \<and> n \<noteq> of_char (CHR ''q'') \<and> n \<noteq> 0 \<longrightarrow>
      while_body tab fs got KEYBOARD s =
        (False, KEYBOARD, block [data_set (int n), stb_n_set True] s)
      \<and> block [data_set (int n), stb_n_set True] s =
          Returned (s\<lparr>self_data := int n, self_stb_n := True,
            self_mcp := (self_mcp s)\<lparr>gpioa := word_of_int (int n),
              gpiob := word_of_int (portb s AND NOT STB_N)\<rparr>,
            trace := trace s @
              [WritePort PortA (int n),
               ReadPort PortB, WritePort PortB (portb s AND NOT STB_N)]\<rparr>))
   \<and> on_release key s =
       Returned (s\<lparr>self_ef4_n := False, self_stb_n := False,
         self_mcp := (self_mcp s)\<lparr>gpiob := word_of_int (portb s OR EF4_N OR STB_N)\<rparr>,
         trace := trace s @
           [ReadPort PortB, WritePort PortB (portb s OR EF4_N),
            ReadPort PortB, WritePort PortB (portb s OR EF4_N OR STB_N)]\<rparr>)
   \<and> ef4_n_get (state_of (on_release key s)) = False
   \<and> stb_n_get (state_of (on_release key s)) = False"
proof (intro conjI impI)
  assume a: "lower_of tab got = [n] \<and> n \<noteq> of_char (CHR ''q'') \<and> n \<noteq> 0"
  then show "while_body tab fs got KEYBOARD s =
        (False, KEYBOARD, block [data_set (int n), stb_n_set True] s)"
    by (simp add: while_body_def Let_def del: block.simps)
  show "block [data_set (int n), stb_n_set True] s =
          Returned (s\<lparr>self_data := int n, self_stb_n := True,
            self_mcp := (self_mcp s)\<lparr>gpioa := word_of_int (int n),
              gpiob := word_of_int (portb s AND NOT STB_N)\<rparr>,
            trace := trace s @
              [WritePort PortA (int n),
               ReadPort PortB, WritePort PortB (portb s AND NOT STB_N)]\<rparr>)"
    by (rule keyboard_block)
next
  show "on_release key s =
       Returned (s\<lparr>self_ef4_n := False, self_stb_n := False,
         self_mcp := (self_mcp s)\<lparr>gpiob := word_of_int (portb s OR EF4_N OR STB_N)\<rparr>,
         trace := trace s @
           [ReadPort PortB, WritePort PortB (portb s OR EF4_N),
            ReadPort PortB, WritePort PortB (portb s OR EF4_N OR STB_N)]\<rparr>)"
    by (rule on_release_eq)
  show "ef4_n_get (state_of (on_release key s)) = False"
    by (simp add: on_release_eq ef4_n_get_def)
  show "stb_n_get (state_of (on_release key s)) = False"
    by (simp add: on_release_eq stb_n_get_def)
qed

theorem keyboard_mode_and_release_witness:
  "lower_of no_case (Some (of_char (CHR ''A''))) = [of_char (CHR ''a'')]
   \<and> (of_char (CHR ''a'') :: nat) \<noteq> of_char (CHR ''q'')
   \<and> (of_char (CHR ''a'') :: nat) \<noteq> 0
   \<and> while_body no_case images0 (Some (of_char (CHR ''A''))) KEYBOARD card0 =
       (False, KEYBOARD, block [data_set 0x61, stb_n_set True] card0)"
proof -
  have h: "lower_of no_case (Some (of_char (CHR ''A''))) = [of_char (CHR ''a'')]
      \<and> (of_char (CHR ''a'') :: nat) \<noteq> of_char (CHR ''q'')
      \<and> (of_char (CHR ''a'') :: nat) \<noteq> 0"
    by (simp add: lower_of_def)
  have n: "int (of_char (CHR ''a'')) = 0x61"
    by simp
  from keyboard_mode_and_release
    [of no_case "Some (of_char (CHR ''A''))" "of_char (CHR ''a'')" images0 card0] h
  have "while_body no_case images0 (Some (of_char (CHR ''A''))) KEYBOARD card0 =
       (False, KEYBOARD, block [data_set (int (of_char (CHR ''a''))), stb_n_set True] card0)"
    by blast
  with h n show ?thesis by (simp only:) simp
qed

text \<open>C8 as stated fails in three places. In KEYBOARD mode the printable symbol \<open>q\<close>
  ends the loop and writes nothing; the symbol \<open>A\<close>, whose code is 0x41, puts 0x61 on
  the data port, the code of \<open>a\<close>; and the euro sign, a printable symbol with code
  0x20AC, is handed to the data setter as 0x20AC, which is no eight-bit code.\<close>

theorem keyboard_mode_quit_case_and_width:
  "while_body no_case images0 (Some (of_char (CHR ''q''))) KEYBOARD card0 =
     (True, KEYBOARD, Returned card0)
   \<and> data_get (state_of (snd (snd
        (while_body no_case images0 (Some (of_char (CHR ''A''))) KEYBOARD card0)))) = 0x61
   \<and> (of_char (CHR ''A'') :: int) = 0x41
   \<and> data_get (state_of (snd (snd
        (while_body no_case images0 (Some 0x20AC) KEYBOARD card0)))) = 0x20AC"
  by (simp add: while_body_def lower_of_def no_case_def data_set_eq stb_n_set_eq data_get_def)

end
